theory Spec2Isabelle
  imports Complex_Main "HOL-Library.AList"
begin

section \<open>Strings\<close>

text \<open>
  Python strings are modelled as ASCII \<open>string\<close>s. \<open>str.lower\<close> and \<open>str.upper\<close>
  change the 26 letters and nothing else; \<open>a in b\<close> on two strings is the
  substring test.
\<close>

definition upper_letters :: string where
  "upper_letters = ''ABCDEFGHIJKLMNOPQRSTUVWXYZ''"

definition lower_letters :: string where
  "lower_letters = ''abcdefghijklmnopqrstuvwxyz''"

definition lower_char :: "char \<Rightarrow> char" where
  "lower_char c = (case map_of (zip upper_letters lower_letters) c of Some d \<Rightarrow> d | None \<Rightarrow> c)"

definition upper_char :: "char \<Rightarrow> char" where
  "upper_char c = (case map_of (zip lower_letters upper_letters) c of Some d \<Rightarrow> d | None \<Rightarrow> c)"

definition lower :: "string \<Rightarrow> string" where
  "lower s = map lower_char s"

definition upper :: "string \<Rightarrow> string" where
  "upper s = map upper_char s"

fun starts_with :: "string \<Rightarrow> string \<Rightarrow> bool" where
  "starts_with [] s = True"
| "starts_with (p # ps) [] = False"
| "starts_with (p # ps) (c # cs) = (p = c \<and> starts_with ps cs)"

fun str_in :: "string \<Rightarrow> string \<Rightarrow> bool" where
  "str_in p [] = (p = [])"
| "str_in p (c # cs) = (starts_with p (c # cs) \<or> str_in p cs)"

section \<open>Tactical engine (tactical\_engine.py)\<close>

datatype mode = MODE_ACTIVE | MODE_PASSIVE | MODE_ASSIST

datatype attack =
    ATTACK_ASSOC_DEAUTH
  | ATTACK_DEAUTH_ONLY
  | ATTACK_BROADCAST_DEAUTH
  | ATTACK_ASSOC_ONLY
  | ATTACK_SKIP

text \<open>
  Clients and access points are open dicts read with \<open>.get(key, default)\<close>; every
  key the engine reads is an optional field, \<open>None\<close> standing for a missing key.
\<close>

record client =
  client_mac :: "string option"
  client_last_seen :: "real option"
  client_last_seen_at :: "real option"

record ap =
  ap_mac :: "string option"
  ap_encryption :: "string option"
  ap_clients :: "client list option"
  ap_rssi :: "real option"
  ap_last_seen :: "real option"
  ap_last_seen_at :: "real option"

definition dget :: "'a option \<Rightarrow> 'a \<Rightarrow> 'a" where
  "dget field dflt = (case field of Some v \<Rightarrow> v | None \<Rightarrow> dflt)"

subsection \<open>CaptureContext\<close>

record capture_info =
  ci_timestamp :: real
  ci_type :: string

text \<open>
  \<open>_captured\<close> is a dict, of which only key membership is read; \<open>_pmkids\<close> a set;
  the three \<open>defaultdict\<close>s are read with \<open>.get(key, default)\<close> only, so they are
  total functions that give the default at a key never written.
\<close>

record capture_context =
  captured :: "string \<rightharpoonup> capture_info"
  pmkids :: "string set"
  captured_clients :: "string \<Rightarrow> string set"
  interactions :: "string \<Rightarrow> int"
  epoch_interactions :: "string \<Rightarrow> int"

definition empty_context :: capture_context where
  "empty_context = \<lparr> captured = Map.empty, pmkids = {}, captured_clients = (\<lambda>_. {}),
     interactions = (\<lambda>_. 0), epoch_interactions = (\<lambda>_. 0) \<rparr>"

definition get_new_clients :: "capture_context \<Rightarrow> string \<Rightarrow> client list \<Rightarrow> string list" where
  "get_new_clients ctx ap_mac0 current_clients =
     (let ap_mac = lower ap_mac0;
          capt = captured_clients ctx ap_mac
      in filter (\<lambda>client_mac. client_mac \<noteq> [] \<and> client_mac \<notin> capt)
           (map (\<lambda>client. lower (dget (client_mac client) [])) current_clients))"

definition has_handshake :: "capture_context \<Rightarrow> string \<Rightarrow> bool" where
  "has_handshake ctx mac = (captured ctx (lower mac) \<noteq> None)"

definition has_pmkid :: "capture_context \<Rightarrow> string \<Rightarrow> bool" where
  "has_pmkid ctx mac = (lower mac \<in> pmkids ctx)"

text \<open>
  \<open>record_handshake(mac, handshake_type='full', client_mac=None)\<close>; \<open>now\<close> is the
  reading of \<open>time.time()\<close>. A client MAC that is \<open>None\<close> or empty is falsy.
\<close>

definition record_handshake ::
  "capture_context \<Rightarrow> string \<Rightarrow> string \<Rightarrow> string option \<Rightarrow> real \<Rightarrow> capture_context" where
  "record_handshake ctx mac0 handshake_type client now =
     (let mac = lower mac0;
          c1 = ctx\<lparr>captured := (captured ctx)(mac \<mapsto> \<lparr>ci_timestamp = now, ci_type = handshake_type\<rparr>)\<rparr>;
          c2 = (if handshake_type = ''pmkid'' then c1\<lparr>pmkids := insert mac (pmkids c1)\<rparr> else c1)
      in (case client of
            None \<Rightarrow> c2
          | Some cm \<Rightarrow>
              if cm = [] then c2
              else c2\<lparr>captured_clients :=
                        (captured_clients c2)(mac := insert (lower cm) (captured_clients c2 mac))\<rparr>))"

definition get_session_interactions :: "capture_context \<Rightarrow> string \<Rightarrow> int" where
  "get_session_interactions ctx mac = interactions ctx (lower mac)"

definition get_epoch_interactions :: "capture_context \<Rightarrow> string \<Rightarrow> int" where
  "get_epoch_interactions ctx mac = epoch_interactions ctx (lower mac)"

definition record_interaction :: "capture_context \<Rightarrow> string \<Rightarrow> capture_context" where
  "record_interaction ctx mac0 =
     (let mac = lower mac0
      in ctx\<lparr>interactions := (interactions ctx)(mac := interactions ctx mac + 1),
             epoch_interactions := (epoch_interactions ctx)(mac := epoch_interactions ctx mac + 1)\<rparr>)"

definition new_epoch :: "capture_context \<Rightarrow> capture_context" where
  "new_epoch ctx = ctx\<lparr>epoch_interactions := (\<lambda>_. 0)\<rparr>"

subsection \<open>TacticalEngine\<close>

text \<open>
  The constructor raises on a mode outside \<open>VALID_MODES\<close>, so an engine's mode is
  one of the three. The two budgets are Python ints.
\<close>

record tactical_engine =
  engine_context :: capture_context
  max_interactions_per_epoch :: int
  max_targets_per_epoch :: int
  engine_mode :: mode

definition client_seen :: "client \<Rightarrow> real" where
  "client_seen c = dget (client_last_seen c) (dget (client_last_seen_at c) 0)"

definition active_clients :: "real \<Rightarrow> client list \<Rightarrow> nat" where
  "active_clients now clients = length (filter (\<lambda>c. client_seen c > now - 120) clients)"

definition score_active :: "tactical_engine \<Rightarrow> real \<Rightarrow> ap \<Rightarrow> real" where
  "score_active eng now a =
     (let mac = lower (dget (ap_mac a) []);
          encryption = upper (dget (ap_encryption a) [])
      in if encryption = [] \<or> encryption = ''OPEN'' then - 500
         else
           let clients = dget (ap_clients a) []
           in if has_handshake (engine_context eng) mac then
                (let new_clients = get_new_clients (engine_context eng) mac clients
                 in if new_clients = [] then - 1000
                    else
                      let score0 = min (real (length new_clients) * 2) 8;
                          session_attacks = get_session_interactions (engine_context eng) mac;
                          score1 = score0 - real_of_int session_attacks * 1.5;
                          epoch_attacks = get_epoch_interactions (engine_context eng) mac
                      in if epoch_attacks \<ge> max_interactions_per_epoch eng then - 100 else score1)
              else
                let s_enc = (if str_in ''WPA3'' encryption \<or> str_in ''SAE'' encryption then 3
                             else if str_in ''WPA2'' encryption \<or> str_in ''WPA'' encryption then 10
                             else if str_in ''WEP'' encryption then 1 else 0);
                    num_clients = length clients;
                    s_cli = s_enc + min (real num_clients * 3) 15;
                    s_act = s_cli + real (active_clients now clients) * 2;
                    rssi = dget (ap_rssi a) (- 100);
                    s_sig = s_act + (if rssi > - 50 then 5
                                     else if rssi > - 65 then 3
                                     else if rssi > - 75 then 1.5
                                     else if rssi > - 85 then 0.5 else 0);
                    last_seen = dget (ap_last_seen a) (dget (ap_last_seen_at a) 0);
                    s_fresh = s_sig + (if last_seen \<noteq> 0 \<and> last_seen > now - 60 then 3
                                       else if last_seen \<noteq> 0 \<and> last_seen > now - 300 then 1 else 0);
                    session_attacks = get_session_interactions (engine_context eng) mac;
                    score = s_fresh - real_of_int session_attacks * 1;
                    epoch_attacks = get_epoch_interactions (engine_context eng) mac
                in if epoch_attacks \<ge> max_interactions_per_epoch eng then - 100 else score)"

definition score_passive :: "tactical_engine \<Rightarrow> real \<Rightarrow> ap \<Rightarrow> real" where
  "score_passive eng now a =
     (let encryption = upper (dget (ap_encryption a) [])
      in if encryption = [] \<or> encryption = ''OPEN'' then - 500
         else
           let mac = lower (dget (ap_mac a) []);
               s0 = (if has_handshake (engine_context eng) mac then - 5 else 0);
               clients = dget (ap_clients a) [];
               s1 = s0 + real (length clients) * 5;
               s2 = s1 + real (active_clients now clients) * 4;
               rssi = dget (ap_rssi a) (- 100)
           in s2 + (if rssi > - 50 then 3
                    else if rssi > - 65 then 2
                    else if rssi > - 75 then 1 else 0))"

definition score_assist :: "tactical_engine \<Rightarrow> real \<Rightarrow> ap \<Rightarrow> real" where
  "score_assist eng now a =
     (let encryption = upper (dget (ap_encryption a) [])
      in if encryption = [] \<or> encryption = ''OPEN'' then - 500
         else
           let clients = dget (ap_clients a) [];
               s1 = real (length clients) * 8;
               s2 = s1 + real (active_clients now clients) * 5;
               rssi = dget (ap_rssi a) (- 100);
               s3 = s2 + (if rssi > - 50 then 4
                          else if rssi > - 65 then 3
                          else if rssi > - 75 then 1.5
                          else if rssi > - 85 then 0.5 else 0)
           in s3 + 1)"

definition score_target :: "tactical_engine \<Rightarrow> real \<Rightarrow> ap \<Rightarrow> real" where
  "score_target eng now a =
     (if engine_mode eng = MODE_PASSIVE then score_passive eng now a
      else if engine_mode eng = MODE_ASSIST then score_assist eng now a
      else score_active eng now a)"

definition select_attack_active :: "tactical_engine \<Rightarrow> ap \<Rightarrow> attack" where
  "select_attack_active eng a =
     (let mac = lower (dget (ap_mac a) []);
          clients = dget (ap_clients a) []
      in if has_pmkid (engine_context eng) mac then
           (if clients \<noteq> [] then ATTACK_DEAUTH_ONLY else ATTACK_SKIP)
         else if clients = [] then ATTACK_ASSOC_ONLY
         else ATTACK_ASSOC_DEAUTH)"

definition select_attack_assist :: "tactical_engine \<Rightarrow> ap \<Rightarrow> attack" where
  "select_attack_assist eng a =
     (let clients = dget (ap_clients a) []
      in if clients = [] then ATTACK_ASSOC_ONLY else ATTACK_BROADCAST_DEAUTH)"

definition select_attack :: "tactical_engine \<Rightarrow> ap \<Rightarrow> attack" where
  "select_attack eng a =
     (if engine_mode eng = MODE_PASSIVE then ATTACK_SKIP
      else if engine_mode eng = MODE_ASSIST then select_attack_assist eng a
      else select_attack_active eng a)"

text \<open>
  The slice \<open>xs[:n]\<close> of Python: a negative \<open>n\<close> counts from the end.
\<close>

definition slice_to :: "'a list \<Rightarrow> int \<Rightarrow> 'a list" where
  "slice_to xs n = (if 0 \<le> n then take (nat n) xs else take (length xs - nat (- n)) xs)"

type_synonym plan_entry = "ap \<times> attack \<times> real"

definition entry_score :: "plan_entry \<Rightarrow> real" where
  "entry_score e = snd (snd e)"

text \<open>
  The scoring loop of \<open>plan_epoch\<close>. Every AP comes with the reading of
  \<open>time.time()\<close> taken while it is scored.
\<close>

fun plan_loop :: "tactical_engine \<Rightarrow> (ap \<times> real) list \<Rightarrow> plan_entry list" where
  "plan_loop eng [] = []"
| "plan_loop eng ((a, now) # rest) =
     (let score = score_target eng now a
      in if score > 0 then
           (let att = select_attack eng a
            in if att \<noteq> ATTACK_SKIP then (a, att, score) # plan_loop eng rest
               else plan_loop eng rest)
         else plan_loop eng rest)"

text \<open>
  \<open>plan_epoch\<close> resets the epoch counters of the context, which the engine keeps,
  and returns the plan: the positive scores with an attack, in a stable descending
  sort (\<open>list.sort(key, reverse=True)\<close>), cut at \<open>max_targets_per_epoch\<close>.
\<close>

definition plan_epoch :: "tactical_engine \<Rightarrow> (ap \<times> real) list \<Rightarrow> tactical_engine \<times> plan_entry list" where
  "plan_epoch eng0 all_aps =
     (let eng = eng0\<lparr>engine_context := new_epoch (engine_context eng0)\<rparr>
      in if engine_mode eng = MODE_PASSIVE then (eng, [])
         else
           let scored = plan_loop eng all_aps;
               sorted_plan = sort_key (\<lambda>e. - entry_score e) scored
           in (eng, slice_to sorted_plan (max_targets_per_epoch eng)))"

subsection \<open>RewardV2\<close>

record epoch_data =
  duration_secs :: "real option"
  new_unique_handshakes :: "real option"
  repeat_handshakes :: "real option"
  targets_attacked :: "real option"
  uncaptured_targets_attacked :: "real option"
  new_aps_discovered :: "real option"
  channels_with_activity :: "real option"
  channels_scanned :: "real option"

definition RewardV2 :: "epoch_data \<Rightarrow> real" where
  "RewardV2 d =
     (let duration = max (dget (duration_secs d) 1) 1;
          new_unique = dget (new_unique_handshakes d) 0;
          repeat = dget (repeat_handshakes d) 0;
          capture_rate = (new_unique * 1 + repeat * 0.1) / (duration / 60);
          total_attacked = max (dget (targets_attacked d) 1) 1;
          uncaptured_attacked = dget (uncaptured_targets_attacked d) total_attacked;
          efficiency = uncaptured_attacked / total_attacked;
          new_aps = dget (new_aps_discovered d) 0;
          exploration = min (new_aps * 0.1) 0.3;
          cwa = dget (channels_with_activity d) 0;
          total_channels_scanned = max (dget (channels_scanned d) 1) 1;
          coverage = cwa / total_channels_scanned
      in capture_rate + 0.3 * efficiency + 0.1 * exploration + 0.1 * coverage)"

text \<open>
  The reference formula of the specification, over the eight metrics.
\<close>

definition reward_reference ::
  "real \<Rightarrow> real \<Rightarrow> real \<Rightarrow> real \<Rightarrow> real \<Rightarrow> real \<Rightarrow> real \<Rightarrow> real \<Rightarrow> real" where
  "reward_reference dur new_unique repeat uncaptured targets new_aps active_channels scanned =
     (new_unique + 0.1 * repeat) / (max dur 1 / 60)
     + 0.3 * (uncaptured / max targets 1)
     + 0.1 * min (0.1 * new_aps) 0.3
     + 0.1 * (active_channels / max scanned 1)"

definition metrics ::
  "real \<Rightarrow> real \<Rightarrow> real \<Rightarrow> real \<Rightarrow> real \<Rightarrow> real \<Rightarrow> real \<Rightarrow> real \<Rightarrow> epoch_data" where
  "metrics dur new_unique repeat uncaptured targets new_aps active_channels scanned =
     \<lparr> duration_secs = Some dur, new_unique_handshakes = Some new_unique,
       repeat_handshakes = Some repeat, targets_attacked = Some targets,
       uncaptured_targets_attacked = Some uncaptured, new_aps_discovered = Some new_aps,
       channels_with_activity = Some active_channels, channels_scanned = Some scanned \<rparr>"

section \<open>Channel bandit (channel\_bandit.py)\<close>

definition CHANNELS_2G :: "int list" where
  "CHANNELS_2G = [1, 2, 3, 4, 5, 6, 7, 8, 9, 10, 11, 12, 13, 14]"

definition CHANNELS_5G :: "int list" where
  "CHANNELS_5G = [36, 40, 44, 48, 52, 56, 60, 64,
                  100, 104, 108, 112, 116, 120, 124, 128,
                  132, 136, 140, 144, 149, 153, 157, 161,
                  165, 169, 173, 177]"

definition RAW_CHANNELS_6G :: "int list" where
  "RAW_CHANNELS_6G = [1, 5, 9, 13, 17, 21, 25, 29, 33, 37, 41, 45,
                      49, 53, 57, 61, 65, 69, 73, 77, 81, 85, 89, 93]"

definition OFFSET_6G :: int where
  "OFFSET_6G = 190"

definition CHANNELS_6G :: "int list" where
  "CHANNELS_6G = map (\<lambda>ch. ch + OFFSET_6G) RAW_CHANNELS_6G"

datatype band = Band2G | Band5G | Band6G

definition channel_to_band :: "int \<Rightarrow> band" where
  "channel_to_band channel =
     (if channel \<in> set CHANNELS_6G then Band6G
      else if channel \<in> set CHANNELS_5G then Band5G
      else if channel \<in> set CHANNELS_2G then Band2G
      else if channel > 177 then Band6G
      else if channel > 14 then Band5G
      else Band2G)"

subsection \<open>Dicts that keep insertion order\<close>

text \<open>
  A dict is an association list in insertion order with one entry per key;
  \<open>d[k] = v\<close> is \<open>AList.update k v d\<close>: it overwrites in place or appends. A
  \<open>defaultdict\<close> read at a missing key gives the default.
\<close>

definition dd_get :: "('k \<times> 'v) list \<Rightarrow> 'v \<Rightarrow> 'k \<Rightarrow> 'v" where
  "dd_get d dflt k = (case map_of d k of Some v \<Rightarrow> v | None \<Rightarrow> dflt)"

definition dict_of_items :: "('k \<times> 'v) list \<Rightarrow> ('k \<times> 'v) list" where
  "dict_of_items items = foldl (\<lambda>d (k, v). AList.update k v d) [] items"

subsection \<open>ChannelBandit\<close>

type_synonym observation = "real \<times> real"

text \<open>
  A channel is an integer. \<open>_bands\<close> is a dict with the three bands as keys, filled
  by the constructor and never written again.
\<close>

record channel_bandit =
  channels :: "int list"
  window_size :: int
  exploration_bonus :: real
  bandit_mode :: mode
  history :: "(int \<times> observation list) list"
  total_scans :: "(int \<times> int) list"
  total_epochs :: int
  client_activity :: "(int \<times> int list) list"
  bands :: "band \<Rightarrow> int list"

definition ChannelBandit :: "int list \<Rightarrow> int \<Rightarrow> real \<Rightarrow> mode \<Rightarrow> channel_bandit" where
  "ChannelBandit chs w bonus m =
     \<lparr> channels = chs, window_size = w, exploration_bonus = bonus, bandit_mode = m,
       history = [], total_scans = [], total_epochs = 0, client_activity = [],
       bands = (\<lambda>b. filter (\<lambda>ch. channel_to_band ch = b) chs) \<rparr>"

text \<open>The slice \<open>xs[-w:]\<close>: the last \<open>w\<close> entries for a positive \<open>w\<close>, \<open>xs[|w|:]\<close> otherwise.\<close>

definition slice_last :: "'a list \<Rightarrow> int \<Rightarrow> 'a list" where
  "slice_last xs w = (if 0 < w then drop (length xs - nat w) xs else drop (nat (- w)) xs)"

definition record_client_activity :: "channel_bandit \<Rightarrow> int \<Rightarrow> int \<Rightarrow> channel_bandit" where
  "record_client_activity b channel client_count =
     (let hist = dd_get (client_activity b) [] channel @ [client_count];
          b1 = b\<lparr>client_activity := AList.update channel hist (client_activity b)\<rparr>
      in if int (length hist) > window_size b1
         then b1\<lparr>client_activity :=
                   AList.update channel (slice_last hist (window_size b1)) (client_activity b1)\<rparr>
         else b1)"

text \<open>\<open>now\<close> is the reading of \<open>time.time()\<close>.\<close>

definition boost :: "channel_bandit \<Rightarrow> int \<Rightarrow> real \<Rightarrow> real \<Rightarrow> channel_bandit" where
  "boost b channel weight now =
     (if channel \<in> set (channels b)
      then b\<lparr>history := AList.update channel (dd_get (history b) [] channel @ [(now, weight)])
                          (history b)\<rparr>
      else b)"

definition update :: "channel_bandit \<Rightarrow> int \<Rightarrow> real \<Rightarrow> real \<Rightarrow> channel_bandit" where
  "update b channel reward now =
     b\<lparr>history := AList.update channel (dd_get (history b) [] channel @ [(now, reward)]) (history b),
       total_scans := AList.update channel (dd_get (total_scans b) 0 channel + 1) (total_scans b),
       total_epochs := total_epochs b + 1\<rparr>"

subsection \<open>Serialised state\<close>

datatype py_error = ValueError | KeyError | IndexError | ZeroDivisionError | OverflowError

text \<open>
  A statement that may raise, followed by the rest of the block: the error of the
  first ends the block.
\<close>

definition and_then :: "'e + 'a \<Rightarrow> ('a \<Rightarrow> 'e + 'b) \<Rightarrow> 'e + 'b" where
  "and_then m f = (case m of Inl e \<Rightarrow> Inl e | Inr x \<Rightarrow> f x)"

text \<open>List reads and writes by index, with what they raise.\<close>

definition get_item :: "'a list \<Rightarrow> nat \<Rightarrow> py_error + 'a" where
  "get_item xs i = (if i < length xs then Inr (xs ! i) else Inl IndexError)"

definition set_item :: "'a list \<Rightarrow> nat \<Rightarrow> 'a \<Rightarrow> py_error + 'a list" where
  "set_item xs i v = (if i < length xs then Inr (xs[i := v]) else Inl IndexError)"

text \<open>
  \<open>str(ch)\<close> of an integer is its decimal numeral; \<open>int(s)\<close> reads a decimal numeral
  with an optional sign and raises \<open>ValueError\<close> on anything else (the blanks and
  underscores that Python also accepts are never written by \<open>str\<close>).
\<close>

definition digit_char :: "nat \<Rightarrow> char" where
  "digit_char d = ''0123456789'' ! d"

fun digits :: "nat \<Rightarrow> string" where
  "digits n = (if n < 10 then [digit_char n] else digits (n div 10) @ [digit_char (n mod 10)])"

definition str_int :: "int \<Rightarrow> string" where
  "str_int i = (if i < 0 then CHR ''-'' # digits (nat (- i)) else digits (nat i))"

definition digit_val :: "char \<Rightarrow> nat option" where
  "digit_val c = map_of (zip ''0123456789'' [0, 1, 2, 3, 4, 5, 6, 7, 8, 9]) c"

fun parse_digits :: "nat \<Rightarrow> string \<Rightarrow> nat option" where
  "parse_digits acc [] = Some acc"
| "parse_digits acc (c # cs) =
     (case digit_val c of None \<Rightarrow> None | Some d \<Rightarrow> parse_digits (10 * acc + d) cs)"

definition parse_unsigned :: "string \<Rightarrow> py_error + int" where
  "parse_unsigned s =
     (if s = [] then Inl ValueError
      else case parse_digits 0 s of None \<Rightarrow> Inl ValueError | Some n \<Rightarrow> Inr (int n))"

definition int_str :: "string \<Rightarrow> py_error + int" where
  "int_str s =
     (case s of
        [] \<Rightarrow> Inl ValueError
      | c # cs \<Rightarrow>
          if c = CHR ''-'' then map_sum id uminus (parse_unsigned cs)
          else if c = CHR ''+'' then parse_unsigned cs
          else parse_unsigned s)"

text \<open>
  The keys of the dicts in a state are strings (written by \<open>str\<close>, or by a JSON
  round trip) or integers (\<open>dict(self._total_scans)\<close>); \<open>int(key)\<close> takes both.
\<close>

datatype key = KInt int | KStr string

fun py_int :: "key \<Rightarrow> py_error + int" where
  "py_int (KInt n) = Inr n"
| "py_int (KStr s) = int_str s"

text \<open>A state is a dict read with \<open>.get(key, default)\<close>: every entry may be missing.\<close>

record bandit_state =
  st_channels :: "int list option"
  st_window_size :: "int option"
  st_exploration_bonus :: "real option"
  st_mode :: "mode option"
  st_history :: "(key \<times> observation list) list option"
  st_total_scans :: "(key \<times> int) list option"
  st_total_epochs :: "int option"
  st_client_activity :: "(key \<times> int list) list option"

definition get_state :: "channel_bandit \<Rightarrow> bandit_state" where
  "get_state b =
     \<lparr> st_channels = Some (channels b),
       st_window_size = Some (window_size b),
       st_exploration_bonus = Some (exploration_bonus b),
       st_mode = Some (bandit_mode b),
       st_history = Some (dict_of_items (map (\<lambda>(ch, h). (KStr (str_int ch), h)) (history b))),
       st_total_scans = Some (dict_of_items (map (\<lambda>(ch, n). (KInt ch, n)) (total_scans b))),
       st_total_epochs = Some (total_epochs b),
       st_client_activity =
         Some (dict_of_items (map (\<lambda>(ch, counts). (KStr (str_int ch), counts)) (client_activity b))) \<rparr>"

text \<open>One loop of \<open>load_state\<close>: \<open>for key, v in items: d[int(key)] = v\<close>.\<close>

fun load_items :: "(int \<times> 'v) list \<Rightarrow> (key \<times> 'v) list \<Rightarrow> py_error + (int \<times> 'v) list" where
  "load_items d [] = Inr d"
| "load_items d ((k, v) # rest) =
     (case py_int k of Inl e \<Rightarrow> Inl e | Inr ch \<Rightarrow> load_items (AList.update ch v d) rest)"

definition load_state :: "channel_bandit \<Rightarrow> bandit_state \<Rightarrow> py_error + channel_bandit" where
  "load_state b st =
     (let b1 = b\<lparr>window_size := dget (st_window_size st) (window_size b),
                 exploration_bonus := dget (st_exploration_bonus st) (exploration_bonus b)\<rparr>
      in case load_items (history b1) (dget (st_history st) []) of
           Inl e \<Rightarrow> Inl e
         | Inr h \<Rightarrow>
             (case load_items (total_scans b1) (dget (st_total_scans st) []) of
                Inl e \<Rightarrow> Inl e
              | Inr ts \<Rightarrow>
                  (case load_items (client_activity b1) (dget (st_client_activity st) []) of
                     Inl e \<Rightarrow> Inl e
                   | Inr ca \<Rightarrow>
                       Inr (b1\<lparr>history := h, total_scans := ts,
                               total_epochs := dget (st_total_epochs st) 0,
                               client_activity := ca\<rparr>))))"

section \<open>Orchestrator (nextgen/\_\_init\_\_.py)\<close>

text \<open>
  The channel list that \<open>NextGenBrain.__init__\<close> gives the bandit, from the
  agent's \<open>_supported_channels\<close> (\<open>None\<close> when the agent has no such attribute):
  the fallback \<open>range(1, 12)\<close>, \<open>sorted(set(channels))\<close>, then the filter
  \<open>ch <= 177\<close>.
\<close>

definition brain_channels :: "int list option \<Rightarrow> int list" where
  "brain_channels supported =
     (let channels0 = (case supported of Some chs \<Rightarrow> (if chs \<noteq> [] then chs else []) | None \<Rightarrow> []);
          channels1 = (if channels0 = [] then [1, 2, 3, 4, 5, 6, 7, 8, 9, 10, 11] else channels0);
          channels2 = sort (remdups channels1)
      in filter (\<lambda>ch. ch \<le> 177) channels2)"

text \<open>The bandit of the orchestrator.\<close>

definition brain_bandit :: "int list option \<Rightarrow> int \<Rightarrow> mode \<Rightarrow> channel_bandit" where
  "brain_bandit supported bandit_window m = ChannelBandit (brain_channels supported) bandit_window 0.1 m"

section \<open>Gaussian process (bayesian\_optimizer.py)\<close>

record gaussian_process =
  length_scale :: real
  noise :: real
  gp_X :: "real list list"
  gp_y :: "real list"

definition GaussianProcess :: "real \<Rightarrow> real \<Rightarrow> gaussian_process" where
  "GaussianProcess ls nz = \<lparr> length_scale = ls, noise = nz, gp_X = [], gp_y = [] \<rparr>"

definition fit :: "gaussian_process \<Rightarrow> real list list \<Rightarrow> real list \<Rightarrow> gaussian_process" where
  "fit g X y = g\<lparr>gp_X := X, gp_y := y\<rparr>"

subsection \<open>Floats\<close>

text \<open>
  The parameters, the training data and the query point are finite floats, given
  as reals. The values that \<open>predict\<close> computes are floats with their range: a
  finite value, an infinity or NaN. Rounding is left out; the range is kept. A
  result at or beyond \<open>OVERFLOW_AT\<close>, the point from which a double rounds to
  infinity, overflows, and a result of magnitude at most \<open>UNDERFLOW_AT\<close>, half the
  least subnormal, underflows to zero. The sign of a zero is not kept: nothing in
  \<open>predict\<close> reads it.
\<close>

datatype py_float = Flt real | PInf | MInf | NaN

definition OVERFLOW_AT :: real where
  "OVERFLOW_AT = 2 ^ 1024 - 2 ^ 970"

definition UNDERFLOW_AT :: real where
  "UNDERFLOW_AT = 1 / 2 ^ 1075"

definition fl :: "real \<Rightarrow> py_float" where
  "fl r = (if OVERFLOW_AT \<le> r then PInf
           else if r \<le> - OVERFLOW_AT then MInf
           else if \<bar>r\<bar> \<le> UNDERFLOW_AT then Flt 0
           else Flt r)"

fun float_sign :: "py_float \<Rightarrow> int" where
  "float_sign (Flt r) = (if 0 < r then 1 else if r < 0 then - 1 else 0)"
| "float_sign PInf = 1"
| "float_sign MInf = - 1"
| "float_sign NaN = 0"

definition signed_inf :: "int \<Rightarrow> py_float" where
  "signed_inf s = (if s = 0 then NaN else if 0 < s then PInf else MInf)"

fun float_neg :: "py_float \<Rightarrow> py_float" where
  "float_neg (Flt r) = Flt (- r)"
| "float_neg PInf = MInf"
| "float_neg MInf = PInf"
| "float_neg NaN = NaN"

text \<open>
  \<open>+\<close>, \<open>-\<close> and \<open>*\<close> of two floats never raise: they overflow to an infinity, and
  \<open>inf - inf\<close> and \<open>0 * inf\<close> are NaN.
\<close>

definition float_add :: "py_float \<Rightarrow> py_float \<Rightarrow> py_float" where
  "float_add a b =
     (case a of
        Flt x \<Rightarrow> (case b of Flt y \<Rightarrow> fl (x + y) | _ \<Rightarrow> b)
      | PInf \<Rightarrow> (case b of NaN \<Rightarrow> NaN | MInf \<Rightarrow> NaN | _ \<Rightarrow> PInf)
      | MInf \<Rightarrow> (case b of NaN \<Rightarrow> NaN | PInf \<Rightarrow> NaN | _ \<Rightarrow> MInf)
      | NaN \<Rightarrow> NaN)"

definition float_sub :: "py_float \<Rightarrow> py_float \<Rightarrow> py_float" where
  "float_sub a b = float_add a (float_neg b)"

definition float_mul :: "py_float \<Rightarrow> py_float \<Rightarrow> py_float" where
  "float_mul a b =
     (case a of
        Flt x \<Rightarrow> (case b of Flt y \<Rightarrow> fl (x * y) | NaN \<Rightarrow> NaN
                   | _ \<Rightarrow> signed_inf (float_sign a * float_sign b))
      | NaN \<Rightarrow> NaN
      | _ \<Rightarrow> (case b of NaN \<Rightarrow> NaN | _ \<Rightarrow> signed_inf (float_sign a * float_sign b)))"

text \<open>
  \<open>a / b\<close> raises \<open>ZeroDivisionError\<close> when \<open>b\<close> is zero, whatever \<open>a\<close> is, and
  nothing else: it overflows to an infinity.
\<close>

definition quotient :: "py_float \<Rightarrow> py_float \<Rightarrow> py_float" where
  "quotient a b =
     (case b of
        Flt y \<Rightarrow> (case a of Flt x \<Rightarrow> fl (x / y) | NaN \<Rightarrow> NaN
                   | _ \<Rightarrow> signed_inf (float_sign a * float_sign b))
      | NaN \<Rightarrow> NaN
      | _ \<Rightarrow> (case a of Flt x \<Rightarrow> Flt 0 | _ \<Rightarrow> NaN))"

definition float_div :: "py_float \<Rightarrow> py_float \<Rightarrow> py_error + py_float" where
  "float_div a b = (if b = Flt 0 then Inl ZeroDivisionError else Inr (quotient a b))"

text \<open>
  \<open>x ** 2\<close> raises \<open>OverflowError\<close> when the square of a finite \<open>x\<close> overflows, and
  underflows to zero without an error. \<open>math.exp\<close> does the same. \<open>math.sqrt\<close>
  raises \<open>ValueError\<close> on a negative argument, \<open>-inf\<close> included.
\<close>

fun float_pow2 :: "py_float \<Rightarrow> py_error + py_float" where
  "float_pow2 (Flt r) = (if OVERFLOW_AT \<le> r * r then Inl OverflowError else Inr (fl (r * r)))"
| "float_pow2 PInf = Inr PInf"
| "float_pow2 MInf = Inr PInf"
| "float_pow2 NaN = Inr NaN"

fun float_exp :: "py_float \<Rightarrow> py_error + py_float" where
  "float_exp (Flt r) = (if OVERFLOW_AT \<le> exp r then Inl OverflowError else Inr (fl (exp r)))"
| "float_exp PInf = Inr PInf"
| "float_exp MInf = Inr (Flt 0)"
| "float_exp NaN = Inr NaN"

fun float_sqrt :: "py_float \<Rightarrow> py_error + py_float" where
  "float_sqrt (Flt r) = (if r < 0 then Inl ValueError else Inr (Flt (sqrt r)))"
| "float_sqrt PInf = Inr PInf"
| "float_sqrt MInf = Inl ValueError"
| "float_sqrt NaN = Inr NaN"

text \<open>
  \<open>a < b\<close> and \<open>a <= b\<close>, false when either side is NaN, and the builtin
  \<open>max(a, b)\<close>, which returns \<open>b\<close> when \<open>b > a\<close> and \<open>a\<close> otherwise.
\<close>

definition float_lt :: "py_float \<Rightarrow> py_float \<Rightarrow> bool" where
  "float_lt a b =
     (case a of
        Flt x \<Rightarrow> (case b of Flt y \<Rightarrow> x < y | PInf \<Rightarrow> True | _ \<Rightarrow> False)
      | MInf \<Rightarrow> (case b of Flt y \<Rightarrow> True | PInf \<Rightarrow> True | _ \<Rightarrow> False)
      | _ \<Rightarrow> False)"


definition float_max :: "py_float \<Rightarrow> py_float \<Rightarrow> py_float" where
  "float_max a b = (if float_lt a b then b else a)"

definition EPS :: real where
  "EPS = 1 / 10 ^ 10"

text \<open>
  A list comprehension whose elements may raise, and \<open>sum\<close> of a generator: the
  elements are added from the left to the start value 0, and the first element
  that raises ends the sum.
\<close>

fun sequence :: "('e + 'a) list \<Rightarrow> 'e + 'a list" where
  "sequence [] = Inr []"
| "sequence (m # ms) = and_then m (\<lambda>x. and_then (sequence ms) (\<lambda>xs. Inr (x # xs)))"

fun sum_gen :: "('a \<Rightarrow> py_error + py_float) \<Rightarrow> 'a list \<Rightarrow> py_float \<Rightarrow> py_error + py_float" where
  "sum_gen f [] acc = Inr acc"
| "sum_gen f (k # ks) acc = and_then (f k) (\<lambda>v. sum_gen f ks (float_add acc v))"

definition py_sum :: "('a \<Rightarrow> py_error + py_float) \<Rightarrow> 'a list \<Rightarrow> py_error + py_float" where
  "py_sum f ks = sum_gen f ks (Flt 0)"

text \<open>
  \<open>M[i][j]\<close> and \<open>M[i][j] = v\<close> on a list of rows; an index out of range raises
  \<open>IndexError\<close>.
\<close>

definition get2 :: "py_float list list \<Rightarrow> nat \<Rightarrow> nat \<Rightarrow> py_error + py_float" where
  "get2 M i j = and_then (get_item M i) (\<lambda>row. get_item row j)"

definition set2 :: "py_float list list \<Rightarrow> nat \<Rightarrow> nat \<Rightarrow> py_float \<Rightarrow> py_error + py_float list list" where
  "set2 M i j v =
     and_then (get_item M i) (\<lambda>row. and_then (set_item row j v) (\<lambda>row'. set_item M i row'))"

subsection \<open>Kernel\<close>

text \<open>
  \<open>_rbf_kernel\<close>: \<open>sq_dist = sum((a - b) ** 2 for a, b in zip(x1, x2))\<close>, then
  \<open>math.exp(-0.5 * sq_dist / (self.length_scale ** 2))\<close>.
\<close>

definition rbf_kernel :: "gaussian_process \<Rightarrow> real list \<Rightarrow> real list \<Rightarrow> py_error + py_float" where
  "rbf_kernel g x1 x2 =
     and_then (py_sum (\<lambda>(a, b). float_pow2 (float_sub (Flt a) (Flt b))) (zip x1 x2)) (\<lambda>sq_dist.
     and_then (float_pow2 (Flt (length_scale g))) (\<lambda>l2.
     and_then (float_div (float_mul (Flt (- 0.5)) sq_dist) l2) (\<lambda>q. float_exp q)))"

text \<open>\<open>_kernel_matrix\<close>: entry \<open>(i, j)\<close> is the kernel of rows \<open>i\<close> and \<open>j\<close>, plus \<open>noise ** 2\<close> on the diagonal.\<close>

definition kernel_entry :: "gaussian_process \<Rightarrow> real list list \<Rightarrow> nat \<Rightarrow> nat \<Rightarrow> py_error + py_float" where
  "kernel_entry g X i j =
     and_then (rbf_kernel g (X ! i) (X ! j)) (\<lambda>k.
       if i = j then and_then (float_pow2 (Flt (noise g))) (\<lambda>n2. Inr (float_add k n2))
       else Inr k)"

definition kernel_matrix :: "gaussian_process \<Rightarrow> real list list \<Rightarrow> py_error + py_float list list" where
  "kernel_matrix g X =
     (let n = length X
      in sequence (map (\<lambda>i. sequence (map (\<lambda>j. kernel_entry g X i j) [0..<n])) [0..<n]))"

definition kernel_vector :: "gaussian_process \<Rightarrow> real list list \<Rightarrow> real list \<Rightarrow> py_error + py_float list" where
  "kernel_vector g X x = sequence (map (\<lambda>xi. rbf_kernel g xi x) X)"

subsection \<open>Factorization and solves\<close>

text \<open>\<open>_cholesky\<close>: the loop over \<open>i\<close> inside column \<open>j\<close>, and the loop over the columns.\<close>

fun cholesky_inner ::
  "py_float list list \<Rightarrow> nat \<Rightarrow> nat list \<Rightarrow> py_float list list \<Rightarrow> py_error + py_float list list" where
  "cholesky_inner A j [] L = Inr L"
| "cholesky_inner A j (i # rest) L =
     and_then (py_sum (\<lambda>k. and_then (get2 L i k) (\<lambda>a. and_then (get2 L j k) (\<lambda>b.
                 Inr (float_mul a b)))) [0..<j]) (\<lambda>s.
     and_then (get2 A i j) (\<lambda>aij.
     and_then (get2 L j j) (\<lambda>ljj.
     and_then (float_div (float_sub aij s) ljj) (\<lambda>v.
     and_then (set2 L i j v) (\<lambda>L'. cholesky_inner A j rest L')))))"

fun cholesky_outer ::
  "py_float list list \<Rightarrow> nat \<Rightarrow> nat list \<Rightarrow> py_float list list \<Rightarrow> py_error + py_float list list" where
  "cholesky_outer A n [] L = Inr L"
| "cholesky_outer A n (j # rest) L =
     and_then (py_sum (\<lambda>k. and_then (get2 L j k) float_pow2) [0..<j]) (\<lambda>s.
     and_then (get2 A j j) (\<lambda>ajj.
     and_then (float_sqrt (float_max (float_sub ajj s) (Flt EPS))) (\<lambda>d.
     and_then (set2 L j j d) (\<lambda>L1.
     and_then (cholesky_inner A j [Suc j..<n] L1) (\<lambda>L2. cholesky_outer A n rest L2)))))"

definition cholesky :: "py_float list list \<Rightarrow> py_error + py_float list list" where
  "cholesky A =
     (let n = length A in cholesky_outer A n [0..<n] (replicate n (replicate n (Flt 0))))"

fun solve_lower_loop ::
  "py_float list list \<Rightarrow> py_float list \<Rightarrow> nat list \<Rightarrow> py_float list \<Rightarrow> py_error + py_float list" where
  "solve_lower_loop L b [] x = Inr x"
| "solve_lower_loop L b (i # rest) x =
     and_then (py_sum (\<lambda>j. and_then (get2 L i j) (\<lambda>l. and_then (get_item x j) (\<lambda>xj.
                 Inr (float_mul l xj)))) [0..<i]) (\<lambda>s.
     and_then (get_item b i) (\<lambda>bi.
     and_then (get2 L i i) (\<lambda>lii.
     and_then (float_div (float_sub bi s) lii) (\<lambda>v.
     and_then (set_item x i v) (\<lambda>x'. solve_lower_loop L b rest x')))))"

definition solve_triangular_lower :: "py_float list list \<Rightarrow> py_float list \<Rightarrow> py_error + py_float list" where
  "solve_triangular_lower L b =
     (let n = length b in solve_lower_loop L b [0..<n] (replicate n (Flt 0)))"

fun solve_upper_loop ::
  "py_float list list \<Rightarrow> py_float list \<Rightarrow> nat \<Rightarrow> nat list \<Rightarrow> py_float list \<Rightarrow> py_error + py_float list" where
  "solve_upper_loop U b n [] x = Inr x"
| "solve_upper_loop U b n (i # rest) x =
     and_then (py_sum (\<lambda>j. and_then (get2 U i j) (\<lambda>u. and_then (get_item x j) (\<lambda>xj.
                 Inr (float_mul u xj)))) [Suc i..<n]) (\<lambda>s.
     and_then (get_item b i) (\<lambda>bi.
     and_then (get2 U i i) (\<lambda>uii.
     and_then (float_div (float_sub bi s) uii) (\<lambda>v.
     and_then (set_item x i v) (\<lambda>x'. solve_upper_loop U b n rest x')))))"

definition solve_triangular_upper :: "py_float list list \<Rightarrow> py_float list \<Rightarrow> py_error + py_float list" where
  "solve_triangular_upper U b =
     (let n = length b in solve_upper_loop U b n (rev [0..<n]) (replicate n (Flt 0)))"

text \<open>The transpose that \<open>predict\<close> builds: \<open>[[L[j][i] for j in ...] for i in ...]\<close>.\<close>

definition transpose_rows :: "py_float list list \<Rightarrow> py_error + py_float list list" where
  "transpose_rows L =
     (let n = length L
      in sequence (map (\<lambda>i. sequence (map (\<lambda>j. get2 L j i) [0..<n])) [0..<n]))"

subsection \<open>Prediction\<close>

text \<open>
  \<open>predict\<close> after the kernel matrix and vector: the \<open>try\<close> around \<open>_cholesky\<close>, which
  catches \<open>ValueError\<close> and \<open>ZeroDivisionError\<close> and returns \<open>(0, 1)\<close> and lets every
  other error through, then the two solves, the mean and the variance. The kernel
  matrix and the kernel vector are computed before the \<open>try\<close>, and the solves and
  the variance after it.
\<close>

definition posterior ::
  "gaussian_process \<Rightarrow> real list \<Rightarrow> py_float list \<Rightarrow> py_error + py_float list list
     \<Rightarrow> py_error + py_float \<times> py_float" where
  "posterior g x k chol =
     (case chol of
        Inl e \<Rightarrow> if e = ValueError \<or> e = ZeroDivisionError then Inr (Flt 0, Flt 1) else Inl e
      | Inr L \<Rightarrow>
          and_then (solve_triangular_lower L (map Flt (gp_y g))) (\<lambda>alpha0.
          and_then (transpose_rows L) (\<lambda>U.
          and_then (solve_triangular_upper U alpha0) (\<lambda>alpha.
          and_then (py_sum (\<lambda>(a, ki). Inr (float_mul a ki)) (zip alpha k)) (\<lambda>mean.
          and_then (solve_triangular_lower L k) (\<lambda>v.
          and_then (rbf_kernel g x x) (\<lambda>kxx.
          and_then (float_pow2 (Flt (noise g))) (\<lambda>n2.
          and_then (py_sum float_pow2 v) (\<lambda>s.
            (let k_star = float_add kxx n2;
                 variance = float_sub k_star s
             in Inr (mean, float_max variance (Flt EPS))))))))))))"

definition predict :: "gaussian_process \<Rightarrow> real list \<Rightarrow> py_error + py_float \<times> py_float" where
  "predict g x =
     (if gp_X g = [] then Inr (Flt 0, Flt 1)
      else and_then (kernel_matrix g (gp_X g)) (\<lambda>K.
           and_then (kernel_vector g (gp_X g) x) (\<lambda>k.
             posterior g x k (cholesky K))))"


section \<open>Bayesian optimizer (bayesian\_optimizer.py)\<close>

definition MAX_OBSERVATIONS :: nat where
  "MAX_OBSERVATIONS = 80"

text \<open>A parameter dict, and the dict of parameter ranges the optimizer is built from.\<close>

type_synonym params = "(string \<times> real) list"

definition TIMING_PARAMS :: "(string \<times> real \<times> real) list" where
  "TIMING_PARAMS = [(''recon_time'', 5, 120), (''hop_recon_time'', 2, 60),
                    (''min_recon_time'', 1, 30), (''ap_ttl'', 30, 600), (''sta_ttl'', 30, 600)]"

text \<open>\<open>best_reward\<close> starts at \<open>float('-inf')\<close>.\<close>

datatype ext_real = NegInf | Fin real

fun exceeds :: "real \<Rightarrow> ext_real \<Rightarrow> bool" where
  "exceeds r NegInf = True"
| "exceeds r (Fin b) = (r > b)"

record bayesian_optimizer =
  param_names :: "string list"
  bounds :: "(real \<times> real) list"
  n_dims :: nat
  n_initial :: int
  n_candidates :: int
  gp :: gaussian_process
  X_history :: "real list list"
  y_history :: "real list"
  param_history :: "params list"
  best_reward :: ext_real
  best_params :: "params option"

definition BayesianOptimizer ::
  "(string \<times> real \<times> real) list \<Rightarrow> real \<Rightarrow> real \<Rightarrow> int \<Rightarrow> int \<Rightarrow> bayesian_optimizer" where
  "BayesianOptimizer parameters gp_noise gp_length_scale ninit ncand =
     \<lparr> param_names = map fst parameters,
       bounds = map (\<lambda>name. dd_get parameters (0, 0) name) (map fst parameters),
       n_dims = length (map fst parameters),
       n_initial = ninit, n_candidates = ncand,
       gp = GaussianProcess gp_length_scale gp_noise,
       X_history = [], y_history = [], param_history = [],
       best_reward = NegInf, best_params = None \<rparr>"

text \<open>\<open>_normalize\<close>: \<open>params_dict[name]\<close> raises \<open>KeyError\<close> on a missing name.\<close>

fun normalize_loop :: "(string \<times> real \<times> real) list \<Rightarrow> params \<Rightarrow> py_error + real list" where
  "normalize_loop [] pd = Inr []"
| "normalize_loop ((name, lo, hi) # rest) pd =
     (case map_of pd name of
        None \<Rightarrow> Inl KeyError
      | Some val \<Rightarrow>
          (case normalize_loop rest pd of
             Inl e \<Rightarrow> Inl e
           | Inr xs \<Rightarrow> Inr ((if hi > lo then (val - lo) / (hi - lo) else 0.5) # xs)))"

definition normalize :: "bayesian_optimizer \<Rightarrow> params \<Rightarrow> py_error + real list" where
  "normalize opt pd = normalize_loop (zip (param_names opt) (bounds opt)) pd"

text \<open>\<open>max\<close> and \<open>list.index\<close>, with what they raise.\<close>

fun py_max :: "real list \<Rightarrow> py_error + real" where
  "py_max [] = Inl ValueError"
| "py_max (x # xs) = Inr (fold max xs x)"

fun py_index :: "real list \<Rightarrow> real \<Rightarrow> py_error + nat" where
  "py_index [] v = Inl ValueError"
| "py_index (x # xs) v = (if x = v then Inr 0 else map_sum id Suc (py_index xs v))"

text \<open>The slice \<open>xs[n:]\<close>.\<close>

definition slice_from :: "'a list \<Rightarrow> int \<Rightarrow> 'a list" where
  "slice_from xs n = (if 0 \<le> n then drop (nat n) xs else drop (length xs - nat (- n)) xs)"

text \<open>The copy of the best observation over the head slot of the three arrays.\<close>

definition move_best_to_front :: "bayesian_optimizer \<Rightarrow> nat \<Rightarrow> py_error + bayesian_optimizer" where
  "move_best_to_front opt best_idx =
     and_then (get_item (X_history opt) best_idx) (\<lambda>xb.
     and_then (set_item (X_history opt) 0 xb) (\<lambda>X'.
     and_then (get_item (y_history opt) best_idx) (\<lambda>yb.
     and_then (set_item (y_history opt) 0 yb) (\<lambda>y'.
     and_then (get_item (param_history opt) best_idx) (\<lambda>pb.
     and_then (set_item (param_history opt) 0 pb) (\<lambda>p'.
       Inr (opt\<lparr>X_history := X', y_history := y', param_history := p'\<rparr>)))))))"

text \<open>The body of \<open>if len(self.X_history) > MAX_OBSERVATIONS\<close> in \<open>observe\<close>.\<close>

definition cap_history :: "bayesian_optimizer \<Rightarrow> py_error + bayesian_optimizer" where
  "cap_history opt =
     and_then (py_max (y_history opt)) (\<lambda>best.
     and_then (py_index (y_history opt) best) (\<lambda>best_idx.
     and_then (if int best_idx < int (length (X_history opt)) - int MAX_OBSERVATIONS + 1
               then move_best_to_front opt best_idx else Inr opt) (\<lambda>o1.
       (let excess = int (length (X_history o1)) - int MAX_OBSERVATIONS
        in Inr (o1\<lparr>X_history := slice_from (X_history o1) excess,
                   y_history := slice_from (y_history o1) excess,
                   param_history := slice_from (param_history o1) excess\<rparr>)))))"

definition observe :: "bayesian_optimizer \<Rightarrow> params \<Rightarrow> real \<Rightarrow> py_error + bayesian_optimizer" where
  "observe opt params_dict reward =
     and_then (normalize opt params_dict) (\<lambda>x.
        (let o1 = opt\<lparr>X_history := X_history opt @ [x],
                       y_history := y_history opt @ [reward],
                       param_history := param_history opt @ [params_dict]\<rparr>;
             o2 = (if exceeds reward (best_reward o1)
                   then o1\<lparr>best_reward := Fin reward, best_params := Some params_dict\<rparr>
                   else o1)
         in if length (X_history o2) > MAX_OBSERVATIONS then cap_history o2 else Inr o2))"

text \<open>
  A sequence of \<open>observe\<close> calls. A call that raises leaves the optimizer to the next
  call as it was: \<open>_normalize\<close> raises before anything is written.
\<close>

fun observe_all :: "bayesian_optimizer \<Rightarrow> (params \<times> real) list \<Rightarrow> bayesian_optimizer" where
  "observe_all opt [] = opt"
| "observe_all opt ((p, r) # rest) =
     (case observe opt p r of Inl e \<Rightarrow> observe_all opt rest | Inr opt' \<Rightarrow> observe_all opt' rest)"

text \<open>
  The invariant of the observation history: the three arrays are aligned, hold at
  most \<open>MAX_OBSERVATIONS\<close> entries, and no reward in them exceeds \<open>best_reward\<close>.
\<close>

definition history_ok :: "bayesian_optimizer \<Rightarrow> bool" where
  "history_ok opt \<longleftrightarrow>
     length (X_history opt) = length (y_history opt)
     \<and> length (y_history opt) = length (param_history opt)
     \<and> length (X_history opt) \<le> MAX_OBSERVATIONS
     \<and> list_all (\<lambda>y. \<not> exceeds y (best_reward opt)) (y_history opt)"

section \<open>Concrete scenarios\<close>

text \<open>
  The access point and client of the unit tests: a WPA2 network with one client,
  both seen at time 1000; \<open>ap0\<close> is the same network with no client.
\<close>

definition cl1 :: client where
  "cl1 = \<lparr>client_mac = Some ''11:22:33:44:55:66'', client_last_seen = Some 1000,
           client_last_seen_at = None\<rparr>"

definition ap1 :: ap where
  "ap1 = \<lparr>ap_mac = Some ''aa:bb:cc:dd:ee:ff'', ap_encryption = Some ''WPA2'',
           ap_clients = Some [cl1], ap_rssi = Some (- 60), ap_last_seen = Some 1000,
           ap_last_seen_at = None\<rparr>"

definition ap0 :: ap where
  "ap0 = ap1\<lparr>ap_clients := Some []\<rparr>"

text \<open>An engine whose context has recorded a handshake of that network, no client given.\<close>

definition eng1 :: tactical_engine where
  "eng1 = \<lparr>engine_context = record_handshake empty_context ''aa:bb:cc:dd:ee:ff'' ''full'' None 1000,
            max_interactions_per_epoch = 5, max_targets_per_epoch = 20,
            engine_mode = MODE_ACTIVE\<rparr>"

text \<open>An engine with a fresh context and a budget of three interactions per epoch.\<close>

definition eng0 :: tactical_engine where
  "eng0 = \<lparr>engine_context = empty_context,
            max_interactions_per_epoch = 3, max_targets_per_epoch = 20,
            engine_mode = MODE_ACTIVE\<rparr>"

definition eng3 :: tactical_engine where
  "eng3 = eng0\<lparr>engine_context :=
            record_interaction (record_interaction (record_interaction (engine_context eng0)
              ''aa:bb:cc:dd:ee:ff'') ''aa:bb:cc:dd:ee:ff'') ''aa:bb:cc:dd:ee:ff''\<rparr>"

text \<open>
  A passive-mode bandit over channels 1, 6 and 11 with some history, and the bandit
  the orchestrator builds from a sensor list with a 6 GHz channel.
\<close>

definition bandit_passive :: channel_bandit where
  "bandit_passive =
     update (record_client_activity (update (ChannelBandit [1, 6, 11] 30 0.1 MODE_PASSIVE) 6 1 1000) 6 2)
       11 0 1001"

definition bandit_fresh :: channel_bandit where
  "bandit_fresh = ChannelBandit [1, 6, 11] 30 0.1 MODE_ACTIVE"

text \<open>
  An optimizer over one parameter \<open>p\<close> in \<open>[0, 1]\<close>, and \<open>MAX_OBSERVATIONS + 50\<close>
  observations of which the first is the best.
\<close>

definition opt_fresh :: bayesian_optimizer where
  "opt_fresh = BayesianOptimizer [(''p'', 0, 1)] 0.1 0.5 10 200"

definition best_first :: "(params \<times> real) list" where
  "best_first = ([(''p'', 1)], 1) # replicate 129 ([(''p'', 0)], 0)"

text \<open>
  A Gaussian process fitted to one observation, and the same with the length scale 0.
\<close>

definition gp_one :: gaussian_process where
  "gp_one = fit (GaussianProcess 1 0.75) [[0]] [1]"





section \<open>Properties of the tactical engine\<close>

subsection \<open>Strings\<close>

lemma letters_disjoint: "d \<in> set lower_letters \<Longrightarrow> d \<notin> set upper_letters"
  unfolding lower_letters_def upper_letters_def by auto

lemma lower_char_idem: "lower_char (lower_char c) = lower_char c"
proof (cases "map_of (zip upper_letters lower_letters) c")
  case None
  then show ?thesis by (simp add: lower_char_def)
next
  case (Some d)
  then have "(c, d) \<in> set (zip upper_letters lower_letters)" by (rule map_of_SomeD)
  then have "d \<in> set lower_letters" by (rule set_zip_rightD)
  then have "d \<notin> set upper_letters" by (rule letters_disjoint)
  then have "d \<notin> fst ` set (zip upper_letters lower_letters)"
    by (auto dest: set_zip_leftD)
  then have "map_of (zip upper_letters lower_letters) d = None"
    by (simp add: map_of_eq_None_iff)
  with Some show ?thesis by (simp add: lower_char_def)
qed

lemma lower_idem: "lower (lower s) = lower s"
  by (simp add: lower_def lower_char_idem)

lemmas string_evals =
  lower_def lower_char_def upper_def upper_char_def upper_letters_def lower_letters_def

lemmas engine_evals =
  score_target_def score_active_def dget_def has_handshake_def record_handshake_def
  empty_context_def get_new_clients_def get_session_interactions_def
  get_epoch_interactions_def record_interaction_def plan_epoch_def new_epoch_def
  select_attack_def select_attack_active_def has_pmkid_def slice_to_def entry_score_def
  active_clients_def client_seen_def Let_def

subsection \<open>The plan of an epoch\<close>







lemma plan_epoch_other:
  "engine_mode eng \<noteq> MODE_PASSIVE \<Longrightarrow> snd (plan_epoch eng aps) =
     slice_to (sort_key (\<lambda>e. - entry_score e)
        (plan_loop (eng\<lparr>engine_context := new_epoch (engine_context eng)\<rparr>) aps))
        (max_targets_per_epoch eng)"
  unfolding plan_epoch_def Let_def by simp








subsection \<open>Captured access points\<close>

lemma has_handshake_record_handshake:
  "has_handshake (record_handshake ctx mac ht cl t) m \<longleftrightarrow> lower m = lower mac \<or> has_handshake ctx m"
  by (auto simp: has_handshake_def record_handshake_def Let_def split: option.splits)

lemma get_new_clients_record_handshake_None:
  "get_new_clients (record_handshake ctx mac ht None t) m cs = get_new_clients ctx m cs"
  by (simp add: get_new_clients_def record_handshake_def Let_def)

lemma get_new_clients_new_epoch:
  "get_new_clients (new_epoch ctx) m cs = get_new_clients ctx m cs"
  by (simp add: get_new_clients_def new_epoch_def)

lemma has_handshake_new_epoch: "has_handshake (new_epoch ctx) m = has_handshake ctx m"
  by (simp add: has_handshake_def new_epoch_def)

lemma has_pmkid_new_epoch: "has_pmkid (new_epoch ctx) m = has_pmkid ctx m"
  by (simp add: has_pmkid_def new_epoch_def)

lemma score_active_captured:
  assumes "upper (dget (ap_encryption a) []) \<noteq> []"
    and "upper (dget (ap_encryption a) []) \<noteq> ''OPEN''"
    and "has_handshake (engine_context eng) (lower (dget (ap_mac a) []))"
  shows "score_active eng now a =
    (if get_new_clients (engine_context eng) (lower (dget (ap_mac a) [])) (dget (ap_clients a) []) = []
     then - 1000
     else if max_interactions_per_epoch eng
              \<le> get_epoch_interactions (engine_context eng) (lower (dget (ap_mac a) [])) then - 100
     else min (real (length (get_new_clients (engine_context eng) (lower (dget (ap_mac a) []))
                 (dget (ap_clients a) []))) * 2) 8
          - real_of_int (get_session_interactions (engine_context eng) (lower (dget (ap_mac a) []))) * 1.5)"
  unfolding score_active_def Let_def using assms by simp

lemma plan_epoch_single_nonpositive:
  assumes "engine_mode eng \<noteq> MODE_PASSIVE"
    and "score_target (eng\<lparr>engine_context := new_epoch (engine_context eng)\<rparr>) now a \<le> 0"
  shows "snd (plan_epoch eng [(a, now)]) = []"
  unfolding plan_epoch_other [OF assms(1)] using assms(2) by (simp add: Let_def slice_to_def)

text \<open>
  Claim C1, as the code has it. In active mode, in a context where
  \<open>record_handshake(mac)\<close> has been called with no client MAC, for an access point
  with that MAC whose encryption is neither empty nor \<open>OPEN\<close>: when none of its
  clients is new (each has an empty MAC or is among the captured clients of that
  access point, as for an access point with no clients), \<open>score_target\<close> returns
  \<open>-1000\<close> and \<open>plan_epoch([ap])\<close> returns the empty list; when some client is new,
  the score is \<open>min(2 * |new|, 8) - 1.5 * session_interactions\<close>, or \<open>-100\<close> at
  the epoch budget.
\<close>

theorem captured_ap_score:
  assumes act: "engine_mode eng = MODE_ACTIVE"
    and ctx: "engine_context eng = record_handshake ctx mac ht None t0"
    and mac: "lower (dget (ap_mac a) []) = lower mac"
    and enc: "upper (dget (ap_encryption a) []) \<noteq> []" "upper (dget (ap_encryption a) []) \<noteq> ''OPEN''"
  shows "(get_new_clients ctx (lower mac) (dget (ap_clients a) []) = [] \<longrightarrow>
            score_target eng now a = - 1000 \<and> snd (plan_epoch eng [(a, now)]) = [])
       \<and> (get_new_clients ctx (lower mac) (dget (ap_clients a) []) \<noteq> [] \<longrightarrow>
            score_target eng now a =
              (if max_interactions_per_epoch eng \<le> get_epoch_interactions (engine_context eng) (lower mac)
               then - 100
               else min (real (length (get_new_clients ctx (lower mac) (dget (ap_clients a) []))) * 2) 8
                    - real_of_int (get_session_interactions (engine_context eng) (lower mac)) * 1.5))"
proof -
  let ?m = "lower (dget (ap_mac a) [])"
  let ?eng' = "eng\<lparr>engine_context := new_epoch (engine_context eng)\<rparr>"
  have hs: "has_handshake (engine_context eng) ?m"
    unfolding ctx has_handshake_record_handshake by (simp add: lower_idem mac)
  have hs': "has_handshake (engine_context ?eng') ?m"
    using hs by (simp add: has_handshake_new_epoch)
  have news: "get_new_clients (engine_context eng) ?m (dget (ap_clients a) [])
                = get_new_clients ctx (lower mac) (dget (ap_clients a) [])"
    unfolding ctx mac by (rule get_new_clients_record_handshake_None)
  have news': "get_new_clients (engine_context ?eng') ?m (dget (ap_clients a) [])
                = get_new_clients ctx (lower mac) (dget (ap_clients a) [])"
    using news by (simp add: get_new_clients_new_epoch)
  have st: "score_target eng now a = score_active eng now a"
    using act by (simp add: score_target_def)
  have st': "score_target ?eng' now a = score_active ?eng' now a"
    using act by (simp add: score_target_def)
  have s1: "score_active eng now a =
    (if get_new_clients ctx (lower mac) (dget (ap_clients a) []) = [] then - 1000
     else if max_interactions_per_epoch eng \<le> get_epoch_interactions (engine_context eng) (lower mac)
     then - 100
     else min (real (length (get_new_clients ctx (lower mac) (dget (ap_clients a) []))) * 2) 8
          - real_of_int (get_session_interactions (engine_context eng) (lower mac)) * 1.5)"
    unfolding score_active_captured [OF enc hs] news unfolding mac ..
  have s2: "get_new_clients ctx (lower mac) (dget (ap_clients a) []) = [] \<Longrightarrow>
              score_active ?eng' now a = - 1000"
    unfolding score_active_captured [OF enc hs'] news' by simp
  have p: "get_new_clients ctx (lower mac) (dget (ap_clients a) []) = [] \<Longrightarrow>
              snd (plan_epoch eng [(a, now)]) = []"
  proof (rule plan_epoch_single_nonpositive)
    show "engine_mode eng \<noteq> MODE_PASSIVE" using act by simp
  next
    assume "get_new_clients ctx (lower mac) (dget (ap_clients a) []) = []"
    then show "score_target ?eng' now a \<le> 0" unfolding st' by (simp add: s2)
  qed
  show ?thesis unfolding st s1 using p by simp
qed

text \<open>
  The claim fails for an access point with one client: in a fresh context no client
  has been captured, the client is new, and the score is \<open>2\<close>.
\<close>

theorem captured_ap_with_client_counterexample:
  "\<not> (score_target eng1 1000 ap1 = - 1000 \<and> snd (plan_epoch eng1 [(ap1, 1000)]) = [])"
proof -
  have "score_target eng1 1000 ap1 = 2"
    by (simp add: eng1_def ap1_def cl1_def engine_evals string_evals)
  then show ?thesis by simp
qed

theorem captured_ap_score_witness:
  "score_target eng1 1000 ap0 = - 1000 \<and> snd (plan_epoch eng1 [(ap0, 1000)]) = []"
proof -
  have 1: "engine_mode eng1 = MODE_ACTIVE" by (simp add: eng1_def)
  have 2: "engine_context eng1 = record_handshake empty_context ''aa:bb:cc:dd:ee:ff'' ''full'' None 1000"
    by (simp add: eng1_def)
  have 3: "lower (dget (ap_mac ap0) []) = lower ''aa:bb:cc:dd:ee:ff''"
    by (simp add: ap0_def ap1_def dget_def)
  have 4: "upper (dget (ap_encryption ap0) []) \<noteq> []"
    by (simp add: ap0_def ap1_def dget_def string_evals)
  have 5: "upper (dget (ap_encryption ap0) []) \<noteq> ''OPEN''"
    by (simp add: ap0_def ap1_def dget_def string_evals)
  have 6: "get_new_clients empty_context (lower ''aa:bb:cc:dd:ee:ff'') (dget (ap_clients ap0) []) = []"
    by (simp add: ap0_def ap1_def dget_def get_new_clients_def)
  show ?thesis using captured_ap_score [OF 1 2 3 4 5, of 1000] 6 by simp
qed

subsection \<open>The interaction budget\<close>

lemma has_handshake_record_interaction:
  "has_handshake (record_interaction ctx m) x = has_handshake ctx x"
  by (simp add: has_handshake_def record_interaction_def Let_def)

lemma has_pmkid_record_interaction:
  "has_pmkid (record_interaction ctx m) x = has_pmkid ctx x"
  by (simp add: has_pmkid_def record_interaction_def Let_def)

lemma epoch_record_interaction:
  "get_epoch_interactions (record_interaction ctx m) x =
     (if lower x = lower m then get_epoch_interactions ctx x + 1 else get_epoch_interactions ctx x)"
  by (simp add: get_epoch_interactions_def record_interaction_def Let_def)

lemma session_record_interaction:
  "get_session_interactions (record_interaction ctx m) x =
     (if lower x = lower m then get_session_interactions ctx x + 1 else get_session_interactions ctx x)"
  by (simp add: get_session_interactions_def record_interaction_def Let_def)

lemma epoch_new_epoch: "get_epoch_interactions (new_epoch ctx) x = 0"
  by (simp add: get_epoch_interactions_def new_epoch_def)

lemma session_new_epoch: "get_session_interactions (new_epoch ctx) x = get_session_interactions ctx x"
  by (simp add: get_session_interactions_def new_epoch_def)

text \<open>At the epoch budget an access point without a handshake scores \<open>-100\<close>; below it, the score falls by one per session interaction.\<close>

lemma score_active_budget:
  assumes "upper (dget (ap_encryption a) []) \<noteq> []"
    and "upper (dget (ap_encryption a) []) \<noteq> ''OPEN''"
    and "max_interactions_per_epoch eng
           \<le> get_epoch_interactions (engine_context eng) (lower (dget (ap_mac a) []))"
    and "\<not> has_handshake (engine_context eng) (lower (dget (ap_mac a) []))"
  shows "score_active eng now a = - 100"
  unfolding score_active_def Let_def using assms by simp

lemma score_active_shift:
  assumes "\<not> has_handshake (engine_context eng) (lower (dget (ap_mac a) []))"
    and "\<not> has_handshake (engine_context eng') (lower (dget (ap_mac a) []))"
    and "\<not> max_interactions_per_epoch eng
           \<le> get_epoch_interactions (engine_context eng) (lower (dget (ap_mac a) []))"
    and "\<not> max_interactions_per_epoch eng'
           \<le> get_epoch_interactions (engine_context eng') (lower (dget (ap_mac a) []))"
    and "upper (dget (ap_encryption a) []) \<noteq> []"
    and "upper (dget (ap_encryption a) []) \<noteq> ''OPEN''"
  shows "score_active eng' now a = score_active eng now a
           - (real_of_int (get_session_interactions (engine_context eng') (lower (dget (ap_mac a) [])))
              - real_of_int (get_session_interactions (engine_context eng) (lower (dget (ap_mac a) []))))"
  unfolding score_active_def Let_def using assms by (simp only: if_False if_True simp_thms)

lemma select_attack_context_irrelevant:
  assumes "dget (ap_clients a) [] \<noteq> []" and "engine_mode eng = MODE_ACTIVE"
    and "engine_mode eng' = engine_mode eng"
    and "pmkids (engine_context eng') = pmkids (engine_context eng)"
  shows "select_attack eng' a = select_attack eng a" and "select_attack eng a \<noteq> ATTACK_SKIP"
  using assms
  by (simp_all add: select_attack_def select_attack_active_def select_attack_assist_def has_pmkid_def Let_def)

lemma plan_epoch_single:
  assumes "engine_mode eng \<noteq> MODE_PASSIVE"
    and "select_attack (eng\<lparr>engine_context := new_epoch (engine_context eng)\<rparr>) a \<noteq> ATTACK_SKIP"
  shows "snd (plan_epoch eng [(a, now)]) =
    (if 0 < score_target (eng\<lparr>engine_context := new_epoch (engine_context eng)\<rparr>) now a
        \<and> 1 \<le> max_targets_per_epoch eng
     then [(a, select_attack (eng\<lparr>engine_context := new_epoch (engine_context eng)\<rparr>) a,
            score_target (eng\<lparr>engine_context := new_epoch (engine_context eng)\<rparr>) now a)]
     else [])"
  unfolding plan_epoch_other [OF assms(1)] using assms(2)
  by (cases "0 \<le> max_targets_per_epoch eng") (auto simp: Let_def slice_to_def)

text \<open>
  Claim C2, as the code has it. In active mode with a budget of three interactions
  per epoch, for an access point that has no handshake yet, has clients, and whose
  score starts positive: after three calls of \<open>record_interaction(mac)\<close> in the
  epoch, \<open>score_target\<close> returns \<open>-100\<close>. \<open>plan_epoch\<close> first resets the epoch
  counters, so it scores the access point with only the session penalty of the three
  interactions: the plan holds the access point with its starting score less 3 when
  that is positive (and the cap admits one target), and is empty otherwise.
\<close>

theorem budget_saturation:
  assumes act: "engine_mode eng = MODE_ACTIVE"
    and budget: "max_interactions_per_epoch eng = 3"
    and pos: "0 < score_target eng t0 a"
    and unc: "\<not> has_handshake (engine_context eng) (dget (ap_mac a) [])"
    and cli: "dget (ap_clients a) [] \<noteq> []"
    and nonneg: "0 \<le> get_epoch_interactions (engine_context eng) (dget (ap_mac a) [])"
    and mac: "lower m = lower (dget (ap_mac a) [])"
    and after: "eng' = eng\<lparr>engine_context :=
        record_interaction (record_interaction (record_interaction (engine_context eng) m) m) m\<rparr>"
  shows "score_target eng' t1 a = - 100
       \<and> snd (plan_epoch eng' [(a, t2)]) =
           (if 3 < score_target eng t2 a \<and> 1 \<le> max_targets_per_epoch eng
            then [(a, select_attack eng a, score_target eng t2 a - 3)] else [])"
proof -
  let ?mac = "lower (dget (ap_mac a) [])"
  let ?ctx3 = "record_interaction (record_interaction (record_interaction (engine_context eng) m) m) m"
  let ?eng'' = "eng'\<lparr>engine_context := new_epoch (engine_context eng')\<rparr>"
  have sa: "score_target e t a = score_active e t a" if "engine_mode e = MODE_ACTIVE" for e t
    using that by (simp add: score_target_def)
  have act': "engine_mode eng' = MODE_ACTIVE" and act'': "engine_mode ?eng'' = MODE_ACTIVE"
    using act after by simp_all
  have pos': "0 < score_active eng t0 a" using pos sa [OF act] by simp
  have enc: "upper (dget (ap_encryption a) []) \<noteq> []" "upper (dget (ap_encryption a) []) \<noteq> ''OPEN''"
    using pos' unfolding score_active_def Let_def by (auto split: if_splits)
  have unc0: "\<not> has_handshake (engine_context eng) ?mac"
    using unc by (simp add: has_handshake_def lower_idem)
  have unc3: "\<not> has_handshake (engine_context eng') ?mac"
    using unc0 after by (simp add: has_handshake_record_interaction)
  have unc4: "\<not> has_handshake (engine_context ?eng'') ?mac"
    using unc3 by (simp add: has_handshake_new_epoch)
  have ep0: "\<not> max_interactions_per_epoch eng \<le> get_epoch_interactions (engine_context eng) ?mac"
  proof
    assume "max_interactions_per_epoch eng \<le> get_epoch_interactions (engine_context eng) ?mac"
    then have "score_active eng t0 a = - 100" using enc unc0 by (intro score_active_budget)
    with pos' show False by simp
  qed
  have ep3: "get_epoch_interactions (engine_context eng') ?mac
               = get_epoch_interactions (engine_context eng) ?mac + 3"
    using after mac by (simp add: epoch_record_interaction lower_idem)
  have nonneg': "0 \<le> get_epoch_interactions (engine_context eng) ?mac"
    using nonneg by (simp add: get_epoch_interactions_def lower_idem)
  have "max_interactions_per_epoch eng' \<le> get_epoch_interactions (engine_context eng') ?mac"
    using ep3 nonneg' budget after by simp
  then have "score_active eng' t1 a = - 100" using enc unc3 by (intro score_active_budget)
  then have first: "score_target eng' t1 a = - 100" using sa [OF act'] by simp
  have ep4: "\<not> max_interactions_per_epoch ?eng'' \<le> get_epoch_interactions (engine_context ?eng'') ?mac"
    using budget after by (simp add: epoch_new_epoch)
  have se: "get_session_interactions (engine_context ?eng'') ?mac
              = get_session_interactions (engine_context eng) ?mac + 3"
    using after mac by (simp add: session_new_epoch session_record_interaction lower_idem)
  have "score_active ?eng'' t2 a = score_active eng t2 a - 3"
    using score_active_shift [OF unc0 unc4 ep0 ep4 enc, of t2] unfolding se by simp
  then have sc: "score_target ?eng'' t2 a = score_target eng t2 a - 3"
    using sa [OF act''] sa [OF act] by simp
  have pm: "pmkids (engine_context ?eng'') = pmkids (engine_context eng)"
    using after by (simp add: new_epoch_def record_interaction_def Let_def)
  have md: "engine_mode ?eng'' = engine_mode eng" using act act'' by simp
  have att: "select_attack ?eng'' a = select_attack eng a" "select_attack eng a \<noteq> ATTACK_SKIP"
    using select_attack_context_irrelevant [OF cli act md pm] by simp_all
  have np: "engine_mode eng' \<noteq> MODE_PASSIVE" using act' by simp
  have skip: "select_attack ?eng'' a \<noteq> ATTACK_SKIP" using att by simp
  have mt: "max_targets_per_epoch eng' = max_targets_per_epoch eng" using after by simp
  have second: "snd (plan_epoch eng' [(a, t2)]) =
           (if 3 < score_target eng t2 a \<and> 1 \<le> max_targets_per_epoch eng
            then [(a, select_attack eng a, score_target eng t2 a - 3)] else [])"
    unfolding plan_epoch_single [OF np skip] sc att mt by simp
  show ?thesis using first second by blast
qed

lemma eng0_score: "score_target eng0 1000 ap1 = 21"
  by (simp add: eng0_def ap1_def cl1_def engine_evals string_evals)

lemma eng0_attack: "select_attack eng0 ap1 = ATTACK_ASSOC_DEAUTH"
  by (simp add: eng0_def ap1_def cl1_def engine_evals string_evals)

text \<open>
  The claim fails for the WPA2 access point with one client: its score starts at 21,
  and after three interactions the plan of the next epoch holds it with score 18.
\<close>

theorem budget_saturation_counterexample:
  "\<not> (score_target eng3 1000 ap1 = - 100 \<and> ap1 \<notin> fst ` set (snd (plan_epoch eng3 [(ap1, 1000)])))"
proof -
  have "snd (plan_epoch eng3 [(ap1, 1000)]) = [(ap1, ATTACK_ASSOC_DEAUTH, 18)]"
    by (simp add: eng3_def eng0_def ap1_def cl1_def engine_evals string_evals)
  then show ?thesis by simp
qed

theorem budget_saturation_witness:
  "score_target eng3 1000 ap1 = - 100
   \<and> snd (plan_epoch eng3 [(ap1, 1000)]) = [(ap1, ATTACK_ASSOC_DEAUTH, 18)]"
proof -
  have 1: "engine_mode eng0 = MODE_ACTIVE" and 2: "max_interactions_per_epoch eng0 = 3"
    by (simp_all add: eng0_def)
  have 3: "0 < score_target eng0 1000 ap1" by (simp add: eng0_score)
  have 4: "\<not> has_handshake (engine_context eng0) (dget (ap_mac ap1) [])"
    by (simp add: eng0_def has_handshake_def empty_context_def)
  have 5: "dget (ap_clients ap1) [] \<noteq> []" by (simp add: ap1_def dget_def)
  have 6: "0 \<le> get_epoch_interactions (engine_context eng0) (dget (ap_mac ap1) [])"
    by (simp add: eng0_def get_epoch_interactions_def empty_context_def)
  have 7: "lower ''aa:bb:cc:dd:ee:ff'' = lower (dget (ap_mac ap1) [])"
    by (simp add: ap1_def dget_def)
  have 8: "max_targets_per_epoch eng0 = 20" by (simp add: eng0_def)
  show ?thesis
    using budget_saturation [OF 1 2 3 4 5 6 7 eng3_def, of 1000 1000]
    by (simp add: eng0_score eng0_attack 8)
qed

subsection \<open>RewardV2\<close>

text \<open>
  Claim C8. For every epoch-metrics dict, \<open>RewardV2\<close> is the reference formula on
  the metrics, each read with its default where the key is missing; on a dict that
  holds all eight metrics it is the formula on their values.
\<close>

theorem RewardV2_formula:
  "RewardV2 d = reward_reference (dget (duration_secs d) 1) (dget (new_unique_handshakes d) 0)
      (dget (repeat_handshakes d) 0)
      (dget (uncaptured_targets_attacked d) (max (dget (targets_attacked d) 1) 1))
      (dget (targets_attacked d) 1) (dget (new_aps_discovered d) 0)
      (dget (channels_with_activity d) 0) (dget (channels_scanned d) 1)
   \<and> RewardV2 (metrics dur nu rp unc tg na ca sc) = reward_reference dur nu rp unc tg na ca sc"
proof -
  have general: "RewardV2 e = reward_reference (dget (duration_secs e) 1) (dget (new_unique_handshakes e) 0)
      (dget (repeat_handshakes e) 0)
      (dget (uncaptured_targets_attacked e) (max (dget (targets_attacked e) 1) 1))
      (dget (targets_attacked e) 1) (dget (new_aps_discovered e) 0)
      (dget (channels_with_activity e) 0) (dget (channels_scanned e) 1)" for e
    unfolding RewardV2_def reward_reference_def Let_def
    by (simp only: mult_1_right mult.commute [of _ "0.1::real"])
  have full: "RewardV2 (metrics dur nu rp unc tg na ca sc) = reward_reference dur nu rp unc tg na ca sc"
    unfolding general by (simp add: metrics_def dget_def)
  show ?thesis using general full by blast
qed

section \<open>Properties of the channel bandit\<close>

subsection \<open>Decimal numerals\<close>

declare digits.simps [simp del]

lemma digit_val_digit_char: "d < 10 \<Longrightarrow> digit_val (digit_char d) = Some d"
proof -
  assume "d < 10"
  then have "d = 0 \<or> d = 1 \<or> d = 2 \<or> d = 3 \<or> d = 4 \<or> d = 5 \<or> d = 6 \<or> d = 7
    \<or> d = 8 \<or> d = 9" by arith
  then show ?thesis
    by (elim disjE) (simp_all add: digit_val_def digit_char_def)
qed

lemma parse_digits_snoc:
  "parse_digits acc (xs @ [c]) =
     (case parse_digits acc xs of None \<Rightarrow> None
      | Some m \<Rightarrow> (case digit_val c of None \<Rightarrow> None | Some d \<Rightarrow> Some (10 * m + d)))"
  by (induction xs arbitrary: acc) (auto split: option.splits)

lemma parse_digits_digits: "parse_digits 0 (digits n) = Some n"
proof (induction n rule: digits.induct)
  case (1 n)
  show ?case
  proof (cases "n < 10")
    case True
    then show ?thesis by (simp add: digits.simps [of n] digit_val_digit_char)
  next
    case False
    then have "parse_digits 0 (digits (n div 10)) = Some (n div 10)" by (rule "1.IH")
    then show ?thesis using False
      by (simp add: digits.simps [of n] parse_digits_snoc digit_val_digit_char)
  qed
qed

lemma digits_nonempty: "digits n \<noteq> []"
  by (simp add: digits.simps [of n])

lemma parse_unsigned_digits: "parse_unsigned (digits n) = Inr (int n)"
  by (simp add: parse_unsigned_def digits_nonempty parse_digits_digits)

lemma digits_head: "digits n = c # cs \<Longrightarrow> c \<noteq> CHR ''-'' \<and> c \<noteq> CHR ''+''"
proof -
  assume eq: "digits n = c # cs"
  have "parse_digits 0 (c # cs) = Some n" using parse_digits_digits [of n] eq by simp
  then have "digit_val c \<noteq> None" by (auto split: option.splits)
  then show ?thesis by (auto simp: digit_val_def)
qed

lemma int_str_str_int: "int_str (str_int i) = Inr i"
proof (cases "i < 0")
  case True
  then show ?thesis by (simp add: str_int_def int_str_def parse_unsigned_digits)
next
  case False
  obtain c cs where eq: "digits (nat i) = c # cs"
    using digits_nonempty [of "nat i"] by (cases "digits (nat i)") auto
  have "int_str (c # cs) = parse_unsigned (c # cs)"
    using digits_head [OF eq] by (simp add: int_str_def)
  then show ?thesis using False eq parse_unsigned_digits [of "nat i"] by (simp add: str_int_def)
qed

lemma str_int_inj: "str_int i = str_int j \<Longrightarrow> i = j"
proof -
  assume "str_int i = str_int j"
  then have "int_str (str_int i) = int_str (str_int j)" by simp
  then show "i = j" by (simp add: int_str_str_int)
qed

subsection \<open>The state round trip\<close>

lemma update_fresh: "k \<notin> fst ` set d \<Longrightarrow> AList.update k v d = d @ [(k, v)]"
  by (induction d) auto

lemma foldl_update_distinct:
  "distinct (map fst (d @ xs)) \<Longrightarrow> foldl (\<lambda>d (k, v). AList.update k v d) d xs = d @ xs"
proof (induction xs arbitrary: d)
  case Nil
  show ?case by simp
next
  case (Cons x xs)
  obtain k v where x: "x = (k, v)" by (cases x)
  have fresh: "k \<notin> fst ` set d" using Cons.prems x by auto
  have "distinct (map fst ((d @ [(k, v)]) @ xs))" using Cons.prems x by simp
  then have "foldl (\<lambda>d (k, v). AList.update k v d) (d @ [(k, v)]) xs = (d @ [(k, v)]) @ xs"
    by (rule Cons.IH)
  then show ?case using x fresh by (simp add: update_fresh)
qed

lemma dict_of_items_distinct: "distinct (map fst xs) \<Longrightarrow> dict_of_items xs = xs"
  unfolding dict_of_items_def using foldl_update_distinct [of "[]" xs] by simp

lemma load_items_keys:
  assumes "\<And>ch. py_int (kf ch) = Inr ch"
  shows "distinct (map fst (d @ xs)) \<Longrightarrow>
         load_items d (map (\<lambda>(ch, v). (kf ch, v)) xs) = Inr (d @ xs)"
proof (induction xs arbitrary: d)
  case Nil
  show ?case by simp
next
  case (Cons x xs)
  obtain k v where x: "x = (k, v)" by (cases x)
  have fresh: "k \<notin> fst ` set d" using Cons.prems x by auto
  have "distinct (map fst ((d @ [(k, v)]) @ xs))" using Cons.prems x by simp
  then have "load_items (d @ [(k, v)]) (map (\<lambda>(ch, v). (kf ch, v)) xs) = Inr ((d @ [(k, v)]) @ xs)"
    by (rule Cons.IH)
  then show ?case using x fresh assms by (simp add: update_fresh)
qed

lemma keyed_distinct:
  assumes "inj kf" and "distinct (map fst xs)"
  shows "distinct (map fst (map (\<lambda>(ch, v). (kf ch, v)) xs))"
proof -
  have "map fst (map (\<lambda>(ch, v). (kf ch, v)) xs) = map kf (map fst xs)"
    by (induction xs) auto
  moreover have "inj_on kf (set (map fst xs))" using assms(1) by (rule inj_on_subset) simp
  ultimately show ?thesis using assms(2) by (simp only: distinct_map)
qed

lemma inj_KStr: "inj (\<lambda>ch. KStr (str_int ch))"
  by (rule injI) (auto dest: str_int_inj)

lemma inj_KInt: "inj KInt"
  by (rule injI) simp

lemma roundtrip_items:
  assumes "inj kf" and "\<And>ch. py_int (kf ch) = Inr ch" and "distinct (map fst xs)"
  shows "load_items [] (dict_of_items (map (\<lambda>(ch, v). (kf ch, v)) xs)) = Inr xs"
proof -
  have "dict_of_items (map (\<lambda>(ch, v). (kf ch, v)) xs) = map (\<lambda>(ch, v). (kf ch, v)) xs"
    using assms(1,3) by (intro dict_of_items_distinct keyed_distinct)
  then show ?thesis using load_items_keys [of kf "[]" xs, OF assms(2)] assms(3) by simp
qed

lemma load_state_get_state:
  assumes "distinct (map fst (history b))" and "distinct (map fst (total_scans b))"
    and "distinct (map fst (client_activity b))"
  shows "load_state (ChannelBandit chs w bonus m) (get_state b) =
           Inr ((ChannelBandit chs w bonus m)
                 \<lparr>window_size := window_size b, exploration_bonus := exploration_bonus b,
                  history := history b, total_scans := total_scans b,
                  total_epochs := total_epochs b, client_activity := client_activity b\<rparr>)"
proof -
  have h: "load_items [] (dict_of_items (map (\<lambda>(ch, v). (KStr (str_int ch), v)) (history b)))
             = Inr (history b)"
    using inj_KStr _ assms(1) by (rule roundtrip_items) (simp add: int_str_str_int)
  have t: "load_items [] (dict_of_items (map (\<lambda>(ch, v). (KInt ch, v)) (total_scans b)))
             = Inr (total_scans b)"
    using inj_KInt _ assms(2) by (rule roundtrip_items) simp
  have c: "load_items [] (dict_of_items (map (\<lambda>(ch, v). (KStr (str_int ch), v)) (client_activity b)))
             = Inr (client_activity b)"
    using inj_KStr _ assms(3) by (rule roundtrip_items) (simp add: int_str_str_int)
  show ?thesis
    by (simp add: load_state_def get_state_def ChannelBandit_def dget_def h t c)
qed

text \<open>
  Claim C3, as the code has it. For every bandit \<open>b\<close> (its dicts hold one entry per
  key), \<open>load_state(b.get_state())\<close> on a second bandit constructed over the same
  channel list, with any window size, exploration bonus and mode, succeeds and
  restores the per-channel observation history, the total-scan counters, the total
  epoch count, the client-activity windows, the window size and the exploration
  bonus of \<open>b\<close>. The mode is not restored: \<open>load_state\<close> never reads it, and the
  second bandit keeps the mode it was constructed with.
\<close>

theorem bandit_state_roundtrip:
  assumes "distinct (map fst (history b))" and "distinct (map fst (total_scans b))"
    and "distinct (map fst (client_activity b))"
  shows "\<exists>r. load_state (ChannelBandit (channels b) w bonus m) (get_state b) = Inr r
           \<and> history r = history b \<and> total_scans r = total_scans b
           \<and> total_epochs r = total_epochs b \<and> client_activity r = client_activity b
           \<and> window_size r = window_size b \<and> exploration_bonus r = exploration_bonus b
           \<and> channels r = channels b \<and> bandit_mode r = m"
  unfolding load_state_get_state [OF assms] by (simp add: ChannelBandit_def)

lemma bandit_passive_fields:
  "history bandit_passive = [(6, [(1000, 1)]), (11, [(1001, 0)])]"
  "total_scans bandit_passive = [(6, 1), (11, 1)]"
  "client_activity bandit_passive = [(6, [2])]"
  "total_epochs bandit_passive = 2"
  "bandit_mode bandit_passive = MODE_PASSIVE"
  "channels bandit_passive = [1, 6, 11]"
  by (simp_all add: bandit_passive_def update_def record_client_activity_def ChannelBandit_def
      dd_get_def Let_def)

text \<open>
  The claim fails on the mode: a state saved by a passive bandit, loaded into a
  bandit constructed in active mode, leaves that bandit in active mode.
\<close>

theorem bandit_state_roundtrip_counterexample:
  "map_sum id bandit_mode (load_state bandit_fresh (get_state bandit_passive)) = Inr MODE_ACTIVE
   \<and> bandit_mode bandit_passive = MODE_PASSIVE"
proof -
  have "load_state bandit_fresh (get_state bandit_passive) =
          Inr (bandit_fresh
                 \<lparr>window_size := window_size bandit_passive,
                  exploration_bonus := exploration_bonus bandit_passive,
                  history := history bandit_passive, total_scans := total_scans bandit_passive,
                  total_epochs := total_epochs bandit_passive,
                  client_activity := client_activity bandit_passive\<rparr>)"
    unfolding bandit_fresh_def by (rule load_state_get_state) (simp_all add: bandit_passive_fields)
  then show ?thesis by (simp add: bandit_passive_fields bandit_fresh_def ChannelBandit_def)
qed

theorem bandit_state_roundtrip_witness:
  "\<exists>r. load_state (ChannelBandit (channels bandit_passive) 5 0.5 MODE_ACTIVE) (get_state bandit_passive) = Inr r
     \<and> history r = history bandit_passive \<and> total_scans r = total_scans bandit_passive
     \<and> total_epochs r = total_epochs bandit_passive
     \<and> client_activity r = client_activity bandit_passive
     \<and> window_size r = window_size bandit_passive
     \<and> exploration_bonus r = exploration_bonus bandit_passive
     \<and> channels r = channels bandit_passive \<and> bandit_mode r = MODE_ACTIVE"
proof -
  have 1: "distinct (map fst (history bandit_passive))"
    and 2: "distinct (map fst (total_scans bandit_passive))"
    and 3: "distinct (map fst (client_activity bandit_passive))"
    by (simp_all add: bandit_passive_fields)
  show ?thesis by (rule bandit_state_roundtrip [OF 1 2 3])
qed

subsection \<open>Boost and update\<close>

lemma dd_get_update: "dd_get (AList.update k v d) dflt k = v"
  by (simp add: dd_get_def update_conv')

text \<open>
  Claim C10. For a channel outside the configured channel list, \<open>boost\<close> leaves the
  whole bandit unchanged, whereas \<open>update\<close> records the observation for any
  channel, configured or not: it appends to the channel's history and increments its
  scan counter and the epoch counter.
\<close>

theorem boost_outside_channels:
  "(c \<notin> set (channels b) \<longrightarrow> boost b c w now = b)
   \<and> dd_get (history (update b c r now)) [] c = dd_get (history b) [] c @ [(now, r)]
   \<and> dd_get (total_scans (update b c r now)) 0 c = dd_get (total_scans b) 0 c + 1
   \<and> total_epochs (update b c r now) = total_epochs b + 1"
  by (simp add: boost_def update_def dd_get_update)

theorem boost_outside_channels_witness:
  "200 \<notin> set (channels bandit_fresh)
   \<and> boost bandit_fresh 200 0.3 1000 = bandit_fresh
   \<and> dd_get (history (update bandit_fresh 200 1 1000)) [] 200 = [(1000, 1)]
   \<and> dd_get (total_scans (update bandit_fresh 200 1 1000)) 0 200 = 1
   \<and> total_epochs (update bandit_fresh 200 1 1000) = 1"
proof -
  have h: "200 \<notin> set (channels bandit_fresh)" by (simp add: bandit_fresh_def ChannelBandit_def)
  have e: "dd_get (history bandit_fresh) [] 200 = []" "dd_get (total_scans bandit_fresh) 0 200 = 0"
    "total_epochs bandit_fresh = 0"
    by (simp_all add: bandit_fresh_def ChannelBandit_def dd_get_def)
  show ?thesis
    using h boost_outside_channels [where b = bandit_fresh and c = 200 and w = "0.3" and now = 1000 and r = 1]
    by (simp add: e)
qed

lemma CHANNELS_6G_high: "ch \<in> set CHANNELS_6G \<Longrightarrow> 191 \<le> ch"
  by (auto simp: CHANNELS_6G_def RAW_CHANNELS_6G_def OFFSET_6G_def)

lemma brain_channels_Some:
  "xs \<noteq> [] \<Longrightarrow> brain_channels (Some xs) = filter (\<lambda>ch. ch \<le> 177) (sort (remdups xs))"
  by (simp add: brain_channels_def Let_def)

lemma brain_channels_shape:
  "\<exists>ys. brain_channels s = filter (\<lambda>ch. ch \<le> 177) (sort (remdups ys))"
  unfolding brain_channels_def Let_def by blast

text \<open>
  Claim C5, as the code has it. Of the channel list the sensor supplies, the
  orchestrator gives the bandit the channels \<open>\<le> 177\<close>, sorted and without
  duplicates. Every channel \<open>> 177\<close> is dropped, the offset-form 6 GHz channels of
  \<open>CHANNELS_6G\<close> among them: none of them is ever in the bandit's channel list.
\<close>

theorem brain_channels_filter:
  "(\<forall>ch \<in> set (channels (brain_bandit s w m)). ch \<le> 177)
   \<and> set (channels (brain_bandit s w m)) \<inter> set CHANNELS_6G = {}
   \<and> sorted (channels (brain_bandit s w m)) \<and> distinct (channels (brain_bandit s w m))
   \<and> (xs \<noteq> [] \<longrightarrow> set (channels (brain_bandit (Some xs) w m)) = {ch \<in> set xs. ch \<le> 177})"
proof -
  have ch: "channels (brain_bandit t w m) = brain_channels t" for t
    by (simp add: brain_bandit_def ChannelBandit_def)
  obtain ys where ys: "brain_channels s = filter (\<lambda>ch. ch \<le> 177) (sort (remdups ys))"
    using brain_channels_shape by blast
  have a: "\<forall>ch \<in> set (brain_channels s). ch \<le> 177" unfolding ys by simp
  have b: "set (brain_channels s) \<inter> set CHANNELS_6G = {}"
    using a CHANNELS_6G_high by fastforce
  have c: "sorted (brain_channels s)" unfolding ys by (intro sorted_wrt_filter) simp
  have d: "distinct (brain_channels s)" unfolding ys by simp
  have e: "xs \<noteq> [] \<longrightarrow> set (brain_channels (Some xs)) = {ch \<in> set xs. ch \<le> 177}"
    by (auto simp: brain_channels_Some)
  show ?thesis unfolding ch using a b c d e by blast
qed

lemma brain_bandit_channels: "channels (brain_bandit s w m) = brain_channels s"
  by (simp add: brain_bandit_def ChannelBandit_def)

text \<open>
  The claim fails at channel 191, the first offset-form 6 GHz channel: supplied by
  the sensor, it is not in the bandit's channel list.
\<close>

theorem brain_channels_filter_counterexample:
  "191 \<in> set CHANNELS_6G \<and> 191 \<in> set [1, 6, 191 :: int]
   \<and> 191 \<notin> set (channels (brain_bandit (Some [1, 6, 191]) 30 MODE_ACTIVE))"
proof -
  have a: "(191::int) \<in> set CHANNELS_6G"
    by (simp add: CHANNELS_6G_def RAW_CHANNELS_6G_def OFFSET_6G_def)
  have "brain_channels (Some [1, 6, 191]) = filter (\<lambda>ch. ch \<le> 177) (sort (remdups [1, 6, 191]))"
    by (rule brain_channels_Some) simp
  then have b: "brain_channels (Some [1, 6, 191]) = [1, 6]" by simp
  show ?thesis unfolding brain_bandit_channels b using a by simp
qed

theorem brain_channels_filter_witness:
  "[191, 6, 1, 6 :: int] \<noteq> []
   \<and> set (channels (brain_bandit (Some [191, 6, 1, 6]) 30 MODE_ACTIVE)) = {1, 6}"
proof -
  have h: "[191, 6, 1, 6 :: int] \<noteq> []" by simp
  have s: "{ch \<in> set [191, 6, 1, 6 :: int]. ch \<le> 177} = {1, 6}" by auto
  have "set (channels (brain_bandit (Some [191, 6, 1, 6]) 30 MODE_ACTIVE))
          = {ch \<in> set [191, 6, 1, 6 :: int]. ch \<le> 177}"
    using brain_channels_filter [of "Some [191, 6, 1, 6]" 30 MODE_ACTIVE "[191, 6, 1, 6]"] h
    by blast
  then show ?thesis unfolding s using h by blast
qed

section \<open>Properties of the Bayesian optimizer\<close>

lemma and_then_simps [simp]:
  "and_then (Inr x) f = f x" "and_then (Inl e) f = Inl e"
  by (simp_all add: and_then_def)


lemma fold_max_in: "fold max xs (x::real) \<in> set (x # xs)"
proof (induction xs arbitrary: x)
  case Nil
  show ?case by simp
next
  case (Cons a xs)
  have m: "max x a = x \<or> max x a = a" by (simp add: max_def)
  have "fold max xs (max x a) \<in> set (max x a # xs)" by (rule Cons.IH)
  then have "fold max xs (max x a) = max x a \<or> fold max xs (max x a) \<in> set xs" by simp
  then show ?case using m by auto
qed

lemma py_max_in: "py_max ys = Inr m \<Longrightarrow> m \<in> set ys"
  using fold_max_in by (cases ys) auto

lemma py_max_nonempty: "ys \<noteq> [] \<Longrightarrow> \<exists>m. py_max ys = Inr m"
  by (cases ys) auto

lemma py_index_in: "v \<in> set ys \<Longrightarrow> \<exists>i. py_index ys v = Inr i \<and> i < length ys"
  by (induction ys) auto

lemma set_move_head: "i < length xs \<Longrightarrow> set (xs[0 := xs ! i]) \<subseteq> set xs"
  using set_update_subset_insert [of xs 0 "xs ! i"] by auto

lemma set_slice_from: "set (slice_from xs n) \<subseteq> set xs"
  by (auto simp: slice_from_def dest: in_set_dropD)

lemma length_slice_from_excess:
  "MAX_OBSERVATIONS < length xs \<Longrightarrow>
   length (slice_from xs (int (length xs) - int MAX_OBSERVATIONS)) = MAX_OBSERVATIONS"
  by (simp add: slice_from_def)

lemma move_best_to_front_ok:
  assumes "i < length (y_history opt)"
    and "length (X_history opt) = length (y_history opt)"
    and "length (y_history opt) = length (param_history opt)"
  shows "move_best_to_front opt i =
           Inr (opt\<lparr>X_history := (X_history opt)[0 := X_history opt ! i],
                    y_history := (y_history opt)[0 := y_history opt ! i],
                    param_history := (param_history opt)[0 := param_history opt ! i]\<rparr>)"
proof -
  have "0 < length (X_history opt)" "0 < length (y_history opt)" "0 < length (param_history opt)"
    "i < length (X_history opt)" "i < length (param_history opt)"
    using assms by linarith+
  then show ?thesis
    using assms(1) by (simp add: move_best_to_front_def get_item_def set_item_def)
qed

lemma cap_history_ok:
  assumes big: "MAX_OBSERVATIONS < length (y_history opt)"
    and lx: "length (X_history opt) = length (y_history opt)"
    and lp: "length (y_history opt) = length (param_history opt)"
  shows "\<exists>r. cap_history opt = Inr r
           \<and> length (X_history r) = MAX_OBSERVATIONS
           \<and> length (y_history r) = MAX_OBSERVATIONS
           \<and> length (param_history r) = MAX_OBSERVATIONS
           \<and> set (y_history r) \<subseteq> set (y_history opt)
           \<and> best_reward r = best_reward opt"
proof -
  have ne: "y_history opt \<noteq> []" using big by auto
  obtain m where m: "py_max (y_history opt) = Inr m" using py_max_nonempty [OF ne] by blast
  have "m \<in> set (y_history opt)" using m by (rule py_max_in)
  then obtain i where i: "py_index (y_history opt) m = Inr i" "i < length (y_history opt)"
    using py_index_in by blast
  define o1 where "o1 = (if int i < int (length (X_history opt)) - int MAX_OBSERVATIONS + 1
      then opt\<lparr>X_history := (X_history opt)[0 := X_history opt ! i],
                y_history := (y_history opt)[0 := y_history opt ! i],
                param_history := (param_history opt)[0 := param_history opt ! i]\<rparr>
      else opt)"
  have step: "(if int i < int (length (X_history opt)) - int MAX_OBSERVATIONS + 1
               then move_best_to_front opt i else Inr opt) = Inr o1"
    unfolding o1_def using move_best_to_front_ok [OF i(2) lx lp] by simp
  have l1: "length (X_history o1) = length (y_history opt)"
    "length (y_history o1) = length (y_history opt)"
    "length (param_history o1) = length (y_history opt)"
    using lx lp by (simp_all add: o1_def)
  have s1: "set (y_history o1) \<subseteq> set (y_history opt)"
    using set_move_head [OF i(2)] by (simp add: o1_def)
  have b1: "best_reward o1 = best_reward opt" by (simp add: o1_def)
  define r where "r = o1\<lparr>X_history := slice_from (X_history o1) (int (length (X_history o1)) - int MAX_OBSERVATIONS),
                    y_history := slice_from (y_history o1) (int (length (X_history o1)) - int MAX_OBSERVATIONS),
                    param_history := slice_from (param_history o1) (int (length (X_history o1)) - int MAX_OBSERVATIONS)\<rparr>"
  have res: "cap_history opt = Inr r"
    unfolding cap_history_def m i(1) and_then_simps step r_def Let_def ..
  have big1: "MAX_OBSERVATIONS < length (X_history o1)" "MAX_OBSERVATIONS < length (y_history o1)"
    "MAX_OBSERVATIONS < length (param_history o1)"
    using big l1 by simp_all
  have lr: "length (X_history r) = MAX_OBSERVATIONS"
    using length_slice_from_excess [OF big1(1)] by (simp add: r_def)
  have ly: "length (y_history r) = MAX_OBSERVATIONS"
    using length_slice_from_excess [OF big1(2)] l1 by (simp add: r_def)
  have lq: "length (param_history r) = MAX_OBSERVATIONS"
    using length_slice_from_excess [OF big1(3)] l1 by (simp add: r_def)
  have sr: "set (y_history r) \<subseteq> set (y_history opt)"
    using set_slice_from [of "y_history o1"] s1 by (auto simp: r_def)
  have br: "best_reward r = best_reward opt" using b1 by (simp add: r_def)
  show ?thesis using res lr ly lq sr br by blast
qed

lemma exceeds_step:
  "\<not> exceeds y b \<Longrightarrow> \<not> exceeds y (if exceeds r b then Fin r else b)"
  by (cases b) auto

lemma exceeds_new: "\<not> exceeds r (if exceeds r b then Fin r else b)"
  by (cases b) auto

lemma observe_history_ok:
  assumes ok: "history_ok opt" and nx: "normalize opt p = Inr x"
  shows "\<exists>r. observe opt p rw = Inr r \<and> history_ok r"
proof -
  define o2 where "o2 = opt\<lparr>X_history := X_history opt @ [x],
      y_history := y_history opt @ [rw], param_history := param_history opt @ [p],
      best_reward := (if exceeds rw (best_reward opt) then Fin rw else best_reward opt),
      best_params := (if exceeds rw (best_reward opt) then Some p else best_params opt)\<rparr>"
  have obs: "observe opt p rw =
      (if length (X_history o2) > MAX_OBSERVATIONS then cap_history o2 else Inr o2)"
    by (simp add: observe_def nx Let_def o2_def)
  have lx: "length (X_history o2) = length (y_history o2)"
    and lp: "length (y_history o2) = length (param_history o2)"
    using ok by (simp_all add: history_ok_def o2_def)
  have all: "list_all (\<lambda>y. \<not> exceeds y (best_reward o2)) (y_history o2)"
    using ok by (auto simp: history_ok_def o2_def list_all_iff exceeds_step exceeds_new)
  show ?thesis
  proof (cases "length (X_history o2) > MAX_OBSERVATIONS")
    case False
    then have "history_ok o2" using lx lp all by (simp add: history_ok_def)
    then show ?thesis using obs False by simp
  next
    case True
    then have big: "MAX_OBSERVATIONS < length (y_history o2)" using lx by simp
    obtain r where r: "cap_history o2 = Inr r" "length (X_history r) = MAX_OBSERVATIONS"
      "length (y_history r) = MAX_OBSERVATIONS" "length (param_history r) = MAX_OBSERVATIONS"
      "set (y_history r) \<subseteq> set (y_history o2)" "best_reward r = best_reward o2"
      using cap_history_ok [OF big lx lp] by blast
    have "list_all (\<lambda>y. \<not> exceeds y (best_reward r)) (y_history r)"
      using all r(5,6) by (auto simp: list_all_iff)
    then have "history_ok r" using r(2,3,4) by (simp add: history_ok_def)
    then show ?thesis using obs True r(1) by simp
  qed
qed

lemma observe_fails_in_normalize:
  assumes "history_ok opt" and "observe opt p rw = Inl e"
  shows "normalize opt p = Inl e"
proof (cases "normalize opt p")
  case (Inl e')
  then show ?thesis using assms(2) by (simp add: observe_def)
next
  case (Inr x)
  then show ?thesis using observe_history_ok [OF assms(1) Inr, of rw] assms(2) by auto
qed






text \<open>
  Claim C4 at \<open>MAX_OBSERVATIONS + 50\<close> observations of which the first is the best:
  the history has length 80, but the best observation is in none of the arrays. When
  the 81st observation arrives the best index is 0; it is copied over slot 0, which
  the trim then drops.
\<close>

theorem best_observation_evicted:
  "length best_first = MAX_OBSERVATIONS + 50
   \<and> length (X_history (observe_all opt_fresh best_first)) = MAX_OBSERVATIONS
   \<and> y_history (observe_all opt_fresh best_first) = replicate 80 0
   \<and> X_history (observe_all opt_fresh best_first) = replicate 80 [0]
   \<and> best_reward (observe_all opt_fresh best_first) = Fin 1
   \<and> best_params (observe_all opt_fresh best_first) = Some [(''p'', 1)]"
  by code_simp

section \<open>Properties of the Gaussian process\<close>

subsection \<open>Floats, sums and matrices\<close>


















subsection \<open>Factorization\<close>




subsection \<open>Solves\<close>







subsection \<open>Kernel\<close>










subsection \<open>Prediction\<close>







subsection \<open>The one-point fit\<close>

lemma range_bounds: "UNDERFLOW_AT < 1 / 1000" "1000 < OVERFLOW_AT" "0 < UNDERFLOW_AT"
  by (simp_all add: UNDERFLOW_AT_def OVERFLOW_AT_def)

lemma fl_zero: "fl 0 = Flt 0"
  using range_bounds by (simp add: fl_def)

lemma fl_mid: "1 / 1000 \<le> \<bar>r\<bar> \<Longrightarrow> \<bar>r\<bar> \<le> 1000 \<Longrightarrow> fl r = Flt r"
  using range_bounds by (auto simp: fl_def)

lemma float_pow2_zero: "float_pow2 (Flt 0) = Inr (Flt 0)"
  using range_bounds by (simp add: fl_zero)


lemma float_pow2_mid:
  "1 / 1000 \<le> r * r \<Longrightarrow> r * r \<le> 1000 \<Longrightarrow> float_pow2 (Flt r) = Inr (Flt (r * r))"
  using range_bounds fl_mid [of "r * r"] by simp

lemma float_exp_zero: "float_exp (Flt 0) = Inr (Flt 1)"
  using range_bounds fl_mid [of 1] by simp

declare float_pow2.simps [simp del] float_exp.simps [simp del]

lemma float_sub_same: "float_sub (Flt a) (Flt a) = Flt 0"
  by (simp add: float_sub_def float_add_def fl_zero)

lemma gp_one_fields:
  "length_scale gp_one = 1" "noise gp_one = 3 / 4" "gp_X gp_one = [[0]]" "gp_y gp_one = [1]"
  by (simp_all add: gp_one_def fit_def GaussianProcess_def)

lemma gp_one_rbf: "rbf_kernel gp_one [0] [0] = Inr (Flt 1)"
proof -
  have s: "py_sum (\<lambda>(a, b). float_pow2 (float_sub (Flt a) (Flt b))) (zip [0] [0 :: real]) = Inr (Flt 0)"
    by (simp add: py_sum_def float_sub_same float_pow2_zero float_add_def fl_zero)
  have l: "float_pow2 (Flt (length_scale gp_one)) = Inr (Flt 1)"
    using float_pow2_mid [of 1] by (simp add: gp_one_fields)
  have d: "float_div (float_mul (Flt (- 0.5)) (Flt 0)) (Flt 1) = Inr (Flt 0)"
    by (simp add: float_div_def float_mul_def quotient_def fl_zero)
  show ?thesis unfolding rbf_kernel_def s l and_then_simps d by (rule float_exp_zero)
qed

lemma gp_one_noise: "float_pow2 (Flt (noise gp_one)) = Inr (Flt (9 / 16))"
  using float_pow2_mid [of "3 / 4"] by (simp add: gp_one_fields)

lemma gp_one_kernel: "kernel_matrix gp_one (gp_X gp_one) = Inr [[Flt (25 / 16)]]"
proof -
  have "kernel_entry gp_one [[0]] 0 0 = Inr (Flt (25 / 16))"
    using fl_mid [of "25 / 16"]
    by (simp add: kernel_entry_def gp_one_rbf gp_one_noise float_add_def)
  then show ?thesis by (simp add: kernel_matrix_def gp_one_fields Let_def)
qed


lemma sqrt_25_16: "sqrt (25 / 16) = 5 / 4"
  by (rule real_sqrt_unique) (simp_all add: power2_eq_square)

lemma gp_one_cholesky: "cholesky [[Flt (25 / 16)]] = Inr [[Flt (5 / 4)]]"
proof -
  have m: "float_max (float_sub (Flt (25 / 16)) (Flt 0)) (Flt EPS) = Flt (25 / 16)"
    using fl_mid [of "25 / 16"]
    by (simp add: float_sub_def float_add_def float_max_def float_lt_def EPS_def)
  show ?thesis
    by (simp add: cholesky_def py_sum_def get2_def set2_def get_item_def set_item_def m sqrt_25_16)
qed









subsection \<open>Further inputs on which prediction raises\<close>

text \<open>A query point far from the data: the square in the kernel overflows.\<close>

lemma predict_overflow_example: "predict gp_one [10 ^ 200] = Inl OverflowError"
proof -
  define big :: real where "big = 10 ^ 200"
  have d: "float_sub (Flt 0) (Flt big) = Flt (- big)"
    by (simp add: big_def float_sub_def float_add_def fl_def OVERFLOW_AT_def UNDERFLOW_AT_def)
  have p: "float_pow2 (Flt (- big)) = Inl OverflowError"
    by (simp add: big_def float_pow2.simps OVERFLOW_AT_def)
  have "py_sum (\<lambda>(a, b). float_pow2 (float_sub (Flt a) (Flt b))) (zip [0] [big]) = Inl OverflowError"
    by (simp add: py_sum_def d p)
  then have "rbf_kernel gp_one [0] [big] = Inl OverflowError"
    by (simp add: rbf_kernel_def)
  then have "kernel_vector gp_one (gp_X gp_one) [big] = Inl OverflowError"
    by (simp add: kernel_vector_def gp_one_fields)
  moreover have "gp_X gp_one \<noteq> []" by (simp add: gp_one_fields)
  ultimately have "predict gp_one [big] = Inl OverflowError"
    by (simp add: predict_def gp_one_kernel)
  then show ?thesis unfolding big_def .
qed

text \<open>A length scale whose square underflows to zero.\<close>

lemma predict_underflow_example:
  "predict (fit (GaussianProcess (1 / 10 ^ 200) 0.75) [[0]] [1]) [0] = Inl ZeroDivisionError"
proof -
  define g where "g = fit (GaussianProcess (1 / 10 ^ 200) 0.75) [[0]] [1]"
  have f: "length_scale g = 1 / 10 ^ 200" "gp_X g = [[0]]"
    by (simp_all add: g_def fit_def GaussianProcess_def)
  have s: "py_sum (\<lambda>(a, b). float_pow2 (float_sub (Flt a) (Flt b))) (zip [0] [0 :: real]) = Inr (Flt 0)"
    by (simp add: py_sum_def float_sub_same float_pow2_zero float_add_def fl_zero)
  have l: "float_pow2 (Flt (length_scale g)) = Inr (Flt 0)"
    by (simp add: f float_pow2.simps fl_def OVERFLOW_AT_def UNDERFLOW_AT_def)
  have "rbf_kernel g [0] [0] = Inl ZeroDivisionError"
    unfolding rbf_kernel_def s l and_then_simps by (simp add: float_div_def)
  then have "kernel_matrix g (gp_X g) = Inl ZeroDivisionError"
    by (simp add: kernel_matrix_def kernel_entry_def f Let_def)
  then show ?thesis unfolding g_def [symmetric] by (simp add: predict_def f)
qed

text \<open>More targets than training points.\<close>

lemma predict_index_example:
  "predict (fit (GaussianProcess 1 0.75) [[0]] [1, 2]) [0] = Inl IndexError"
proof -
  define g where "g = fit (GaussianProcess 1 0.75) [[0]] [1, 2]"
  have f: "length_scale g = 1" "noise g = 3 / 4" "gp_X g = [[0]]" "gp_y g = [1, 2]"
    by (simp_all add: g_def fit_def GaussianProcess_def)
  have s: "py_sum (\<lambda>(a, b). float_pow2 (float_sub (Flt a) (Flt b))) (zip [0] [0 :: real]) = Inr (Flt 0)"
    by (simp add: py_sum_def float_sub_same float_pow2_zero float_add_def fl_zero)
  have l: "float_pow2 (Flt (length_scale g)) = Inr (Flt 1)"
    using float_pow2_mid [of 1] by (simp add: f)
  have d: "float_div (float_mul (Flt (- 0.5)) (Flt 0)) (Flt 1) = Inr (Flt 0)"
    by (simp add: float_div_def float_mul_def quotient_def fl_zero)
  have r: "rbf_kernel g [0] [0] = Inr (Flt 1)"
    unfolding rbf_kernel_def s l and_then_simps d by (rule float_exp_zero)
  have n: "float_pow2 (Flt (noise g)) = Inr (Flt (9 / 16))"
    using float_pow2_mid [of "3 / 4"] by (simp add: f)
  have "kernel_entry g [[0]] 0 0 = Inr (Flt (25 / 16))"
    using fl_mid [of "25 / 16"] by (simp add: kernel_entry_def r n float_add_def)
  then have K: "kernel_matrix g [[0]] = Inr [[Flt (25 / 16)]]"
    by (simp add: kernel_matrix_def Let_def)
  have k: "kernel_vector g [[0]] [0] = Inr [Flt 1]"
    by (simp add: kernel_vector_def r)
  have "solve_triangular_lower [[Flt (5 / 4)]] [Flt 1, Flt 2] = Inl IndexError"
    using fl_mid [of 1] fl_mid [of "4 / 5"]
    by (simp add: solve_triangular_lower_def py_sum_def get2_def get_item_def set_item_def
        float_sub_def float_add_def float_div_def quotient_def upt_rec)
  then have "posterior g [0] [Flt 1] (Inr [[Flt (5 / 4)]]) = Inl IndexError"
    by (simp add: posterior_def f)
  then show ?thesis unfolding g_def [symmetric]
    by (simp add: predict_def f K k gp_one_cholesky)
qed


end
